theory Spec2Isabelle
  imports Complex_Main "HOL-Library.Char_ord" "HOL-Library.List_Lexorder"
begin

section \<open>ETL of scraped real-estate listings into the properties table\<close>

text \<open>
  The program under study is \<^verbatim>\<open>dags/duckdb__scraping__property.py\<close>. Its function
  \<^verbatim>\<open>parse_jsonl_and_write_to_duckdb\<close> decodes a line-delimited JSON file against
  \<^verbatim>\<open>PA_SCHEMA\<close>, creates the table \<^verbatim>\<open>properties\<close> if it is absent
  (\<^verbatim>\<open>CREATE_DUCKDB_TABLE_QUERY\<close>), appends the filtered and transformed rows
  (\<^verbatim>\<open>INSERT_DUCKDB_TABLE_QUERY\<close>) and logs three counts.

  Modelling decisions.
  \<^item> Strings are byte lists (UTF-8). VARCHAR comparison is the bytewise lexicographic
    order, which is the order of \<^theory_text>\<open>List_Lexorder\<close> over \<^theory_text>\<open>Char_ord\<close>.
  \<^item> The input file is the list of its lines, each a JSON value. The reader keeps a
    field that the schema does not name as a further column of the table it returns
    (\<^verbatim>\<open>read_json\<close> is called without \<^verbatim>\<open>unexpected_field_behavior\<close>), so a row
    of that table is a list of named cells.
  \<^item> The query refers to \<^verbatim>\<open>price\<close> and \<^verbatim>\<open>price_per_square_meter\<close>. Where the
    table has a column of that name the column is meant, otherwise the item of the
    select list with that alias. Names are compared without regard to letter case.
  \<^item> A finite DOUBLE is an exact rational: the rounding of binary floating point and
    the sign of zero are not part of the model. The values infinity and NaN are.
  \<^item> A truth value of SQL is a \<open>bool option\<close> with \<open>None\<close> for NULL (unknown).
  \<^item> An exception is a value of type \<open>error\<close>; the run returns the error (if any), the
    store it leaves behind and the lines it has logged.
\<close>

subsection \<open>Errors\<close>

datatype error =
    SchemaViolation            \<comment> \<open>raised by the JSON reader (ArrowInvalid)\<close>
  | CatalogError string        \<comment> \<open>a statement names a table that does not exist\<close>
  | BinderError                \<comment> \<open>an operator of the query does not accept the type of a column\<close>
  | ColumnCountMismatch        \<comment> \<open>the table has another number of columns than the select list\<close>
  | NotNullViolation string    \<comment> \<open>NOT NULL constraint failed on the named column\<close>

subsection \<open>The input: JSON lines and the Arrow schema\<close>

datatype json =
    JNull
  | JBool bool
  | JNumber rat
  | JString string
  | JArray "json list"
  | JObject "(string \<times> json) list"

datatype arrow_type = ArrowString | ArrowFloat64

record field =
  field_name :: string
  field_type :: arrow_type
  nullable :: bool

definition PA_SCHEMA :: "field list" where
  "PA_SCHEMA =
    [\<lparr>field_name = ''id'', field_type = ArrowString, nullable = False\<rparr>,
     \<lparr>field_name = ''raw_price'', field_type = ArrowString, nullable = True\<rparr>,
     \<lparr>field_name = ''living_area'', field_type = ArrowFloat64, nullable = True\<rparr>,
     \<lparr>field_name = ''property_type'', field_type = ArrowString, nullable = True\<rparr>,
     \<lparr>field_name = ''municipality'', field_type = ArrowString, nullable = True\<rparr>,
     \<lparr>field_name = ''scraping_date'', field_type = ArrowString, nullable = True\<rparr>]"

text \<open>
  A cell of the Arrow table. The last three kinds occur only in columns that the
  reader infers for fields outside the schema.
\<close>

datatype cell = CNull | CString string | CFloat rat | CBool bool | CList | CStruct

type_synonym row = "(string \<times> cell) list"

text \<open>A number is a double when rounding to the nearest double does not overflow.\<close>

definition in_double_range :: "rat \<Rightarrow> bool" where
  "in_double_range x = (\<bar>x\<bar> < 2 ^ 1024 - 2 ^ 970)"

text \<open>
  One field of the schema in one line: an absent field and a JSON null are both a null
  cell, refused when the field is declared \<^verbatim>\<open>nullable=False\<close>; a present value must have
  the JSON kind of the declared type, and a number must be a double.
\<close>

fun convert_field :: "field \<Rightarrow> json option \<Rightarrow> error + cell" where
  "convert_field fld None = (if nullable fld then Inr CNull else Inl SchemaViolation)"
| "convert_field fld (Some JNull) = (if nullable fld then Inr CNull else Inl SchemaViolation)"
| "convert_field fld (Some (JString s)) =
     (if field_type fld = ArrowString then Inr (CString s) else Inl SchemaViolation)"
| "convert_field fld (Some (JNumber x)) =
     (if field_type fld = ArrowFloat64 \<and> in_double_range x then Inr (CFloat x)
      else Inl SchemaViolation)"
| "convert_field fld (Some _) = Inl SchemaViolation"

fun convert_fields :: "field list \<Rightarrow> (string \<times> json) list \<Rightarrow> error + row" where
  "convert_fields [] obj = Inr []"
| "convert_fields (fld # flds) obj =
     (case convert_field fld (map_of obj (field_name fld)) of
        Inl e \<Rightarrow> Inl e
      | Inr c \<Rightarrow>
          (case convert_fields flds obj of
             Inl e \<Rightarrow> Inl e
           | Inr cs \<Rightarrow> Inr ((field_name fld, c) # cs)))"

text \<open>A field outside the schema: the type of its column is inferred from the value.\<close>

fun infer_cell :: "json option \<Rightarrow> error + cell" where
  "infer_cell None = Inr CNull"
| "infer_cell (Some JNull) = Inr CNull"
| "infer_cell (Some (JBool b)) = Inr (CBool b)"
| "infer_cell (Some (JNumber x)) =
     (if in_double_range x then Inr (CFloat x) else Inl SchemaViolation)"
| "infer_cell (Some (JString s)) = Inr (CString s)"
| "infer_cell (Some (JArray vs)) = Inr CList"
| "infer_cell (Some (JObject fs)) = Inr CStruct"

fun convert_extras :: "string list \<Rightarrow> (string \<times> json) list \<Rightarrow> error + row" where
  "convert_extras [] obj = Inr []"
| "convert_extras (n # ns) obj =
     (case infer_cell (map_of obj n) of
        Inl e \<Rightarrow> Inl e
      | Inr c \<Rightarrow>
          (case convert_extras ns obj of
             Inl e \<Rightarrow> Inl e
           | Inr cs \<Rightarrow> Inr ((n, c) # cs)))"

text \<open>
  The columns of the table are the fields of the schema, then the other fields of the
  file in the order in which they first occur.
\<close>

fun field_names :: "json \<Rightarrow> string list" where
  "field_names (JObject obj) = map fst obj"
| "field_names _ = []"

definition extra_names :: "field list \<Rightarrow> json list \<Rightarrow> string list" where
  "extra_names schema f =
     rev (remdups (rev (filter (\<lambda>n. n \<notin> set (map field_name schema))
                          (concat (map field_names f)))))"

text \<open>
  A line that is not a JSON object is no record at all, and a record that gives a field
  twice is refused.
\<close>

fun convert_line :: "field list \<Rightarrow> string list \<Rightarrow> json \<Rightarrow> error + row" where
  "convert_line schema extras (JObject obj) =
     (if distinct (map fst obj) then
        (case convert_fields schema obj of
           Inl e \<Rightarrow> Inl e
         | Inr cs \<Rightarrow>
             (case convert_extras extras obj of
                Inl e \<Rightarrow> Inl e
              | Inr xs \<Rightarrow> Inr (cs @ xs)))
      else Inl SchemaViolation)"
| "convert_line schema extras _ = Inl SchemaViolation"

fun read_lines :: "field list \<Rightarrow> string list \<Rightarrow> json list \<Rightarrow> error + row list" where
  "read_lines schema extras [] = Inr []"
| "read_lines schema extras (l # ls) =
     (case convert_line schema extras l of
        Inl e \<Rightarrow> Inl e
      | Inr r \<Rightarrow>
          (case read_lines schema extras ls of Inl e \<Rightarrow> Inl e | Inr rs \<Rightarrow> Inr (r # rs)))"

text \<open>The values of an inferred column must all be of one kind, nulls apart.\<close>

datatype kind = KString | KNumber | KBool | KList | KStruct

fun kind_of :: "cell \<Rightarrow> kind list" where
  "kind_of CNull = []"
| "kind_of (CString s) = [KString]"
| "kind_of (CFloat x) = [KNumber]"
| "kind_of (CBool b) = [KBool]"
| "kind_of CList = [KList]"
| "kind_of CStruct = [KStruct]"

definition column_kinds :: "row list \<Rightarrow> string \<Rightarrow> kind list" where
  "column_kinds t n =
     remdups (concat (map (\<lambda>r. case map_of r n of None \<Rightarrow> [] | Some c \<Rightarrow> kind_of c) t))"

definition kinds_agree :: "row list \<Rightarrow> string list \<Rightarrow> bool" where
  "kinds_agree t ns = list_all (\<lambda>n. length (column_kinds t n) \<le> 1) ns"

text \<open>
  The whole file. The reader raises on a file without lines; a line that fails, or a
  column of mixed kinds, fails the read, and no table is returned.
\<close>

definition read_json :: "field list \<Rightarrow> json list \<Rightarrow> error + row list" where
  "read_json schema f =
     (if f = [] then Inl SchemaViolation
      else (case read_lines schema (extra_names schema f) f of
              Inl e \<Rightarrow> Inl e
            | Inr t \<Rightarrow>
                if kinds_agree t (extra_names schema f) then Inr t else Inl SchemaViolation))"

subsection \<open>SQL values, three-valued logic and the scalar functions of the query\<close>

text \<open>
  \<open>Other\<close> stands for a value of a type that no operator of the query accepts (a
  boolean, a list, a struct).
\<close>

datatype sqlval = Null | Text string | Dbl rat | PosInf | NegInf | NaN | Other

text \<open>A cell of the registered Arrow table, read by the engine.\<close>

fun sql_of_cell :: "cell \<Rightarrow> sqlval" where
  "sql_of_cell CNull = Null"
| "sql_of_cell (CString s) = Text s"
| "sql_of_cell (CFloat x) = Dbl x"
| "sql_of_cell (CBool b) = Other"
| "sql_of_cell CList = Other"
| "sql_of_cell CStruct = Other"

text \<open>Column names are matched without regard to the case of the letters A to Z.\<close>

definition lower_char :: "char \<Rightarrow> char" where
  "lower_char c =
     (case map_of (zip ''ABCDEFGHIJKLMNOPQRSTUVWXYZ'' ''abcdefghijklmnopqrstuvwxyz'') c of
        None \<Rightarrow> c
      | Some d \<Rightarrow> d)"

definition lower :: "string \<Rightarrow> string" where
  "lower s = map lower_char s"

fun lookup_column :: "row \<Rightarrow> string \<Rightarrow> cell option" where
  "lookup_column [] name = None"
| "lookup_column ((n, c) # r) name =
     (if lower n = lower name then Some c else lookup_column r name)"

definition column_ref :: "row \<Rightarrow> string \<Rightarrow> sqlval" where
  "column_ref r name = (case lookup_column r name of None \<Rightarrow> Null | Some c \<Rightarrow> sql_of_cell c)"

definition sql_and :: "bool option \<Rightarrow> bool option \<Rightarrow> bool option" where
  "sql_and a b =
     (if a = Some False \<or> b = Some False then Some False
      else if a = None \<or> b = None then None
      else Some True)"

text \<open>\<^verbatim>\<open>x IN ('a', 'b', ...)\<close> with a list of non-null literals.\<close>

fun sql_in :: "sqlval \<Rightarrow> string list \<Rightarrow> bool option" where
  "sql_in (Text s) lits = Some (s \<in> set lits)"
| "sql_in _ lits = None"

text \<open>Comparison with a numeric literal. NaN is greater than every other value.\<close>

fun sql_ge :: "sqlval \<Rightarrow> rat \<Rightarrow> bool option" where
  "sql_ge (Dbl x) k = Some (k \<le> x)"
| "sql_ge PosInf k = Some True"
| "sql_ge NegInf k = Some False"
| "sql_ge NaN k = Some True"
| "sql_ge _ k = None"

fun sql_le :: "sqlval \<Rightarrow> rat \<Rightarrow> bool option" where
  "sql_le (Dbl x) k = Some (x \<le> k)"
| "sql_le PosInf k = Some False"
| "sql_le NegInf k = Some True"
| "sql_le NaN k = Some False"
| "sql_le _ k = None"

definition sql_between :: "sqlval \<Rightarrow> rat \<Rightarrow> rat \<Rightarrow> bool option" where
  "sql_between x lo hi = sql_and (sql_ge x lo) (sql_le x hi)"

fun sql_gt_text :: "sqlval \<Rightarrow> string \<Rightarrow> bool option" where
  "sql_gt_text (Text s) lit = Some (lit < s)"
| "sql_gt_text _ lit = None"

text \<open>
  \<^verbatim>\<open>a / b\<close> on DOUBLE, with the results of IEEE arithmetic for a zero divisor and for
  the values that are not finite.
\<close>

definition finite_or_inf :: "rat \<Rightarrow> sqlval" where
  "finite_or_inf x = (if in_double_range x then Dbl x else if 0 < x then PosInf else NegInf)"

fun sql_div :: "sqlval \<Rightarrow> sqlval \<Rightarrow> sqlval" where
  "sql_div (Dbl a) (Dbl b) =
     (if b = 0 then (if 0 < a then PosInf else if a < 0 then NegInf else NaN)
      else finite_or_inf (a / b))"
| "sql_div (Dbl a) PosInf = Dbl 0"
| "sql_div (Dbl a) NegInf = Dbl 0"
| "sql_div PosInf (Dbl b) = (if 0 \<le> b then PosInf else NegInf)"
| "sql_div NegInf (Dbl b) = (if 0 \<le> b then NegInf else PosInf)"
| "sql_div Null v = Null"
| "sql_div u Null = Null"
| "sql_div (Text s) v = Null"
| "sql_div u (Text s) = Null"
| "sql_div Other v = Null"
| "sql_div u Other = Null"
| "sql_div u v = NaN"

text \<open>\<^verbatim>\<open>ROUND(x, d)\<close>: to \<open>d\<close> decimal places, halves away from zero.\<close>

definition round_half_away :: "rat \<Rightarrow> int" where
  "round_half_away x = (if 0 \<le> x then \<lfloor>x + 1 / 2\<rfloor> else - \<lfloor>- x + 1 / 2\<rfloor>)"

definition round_to :: "nat \<Rightarrow> rat \<Rightarrow> rat" where
  "round_to d x = of_int (round_half_away (x * 10 ^ d)) / 10 ^ d"

fun ROUND :: "sqlval \<Rightarrow> nat \<Rightarrow> sqlval" where
  "ROUND (Dbl x) d = Dbl (round_to d x)"
| "ROUND PosInf d = PosInf"
| "ROUND NegInf d = NegInf"
| "ROUND NaN d = NaN"
| "ROUND _ d = Null"

text \<open>
  \<^verbatim>\<open>SPLIT_PART(s, sep, n)\<close>: \<open>s\<close> is cut at every occurrence of \<open>sep\<close>, scanning from the
  left; the result is the \<open>n\<close>-th piece, counted from 1, and the empty string when
  there is no such piece.
\<close>

function split_at :: "string \<Rightarrow> string \<Rightarrow> string \<Rightarrow> string list" where
  "split_at sep acc [] = [rev acc]"
| "split_at sep acc (c # cs) =
     (if sep \<noteq> [] \<and> take (length sep) (c # cs) = sep
      then rev acc # split_at sep [] (drop (length sep) (c # cs))
      else split_at sep (c # acc) cs)"
  by pat_completeness auto
termination
  by (relation "measure (\<lambda>(sep, acc, s). length s)") auto

fun SPLIT_PART :: "sqlval \<Rightarrow> string \<Rightarrow> nat \<Rightarrow> sqlval" where
  "SPLIT_PART (Text s) sep n =
     (let parts = split_at sep [] s
      in if 1 \<le> n \<and> n \<le> length parts then Text (parts ! (n - 1)) else Text [])"
| "SPLIT_PART _ sep n = Null"

text \<open>\<^verbatim>\<open>REPLACE(s, src, dst)\<close>: every occurrence of \<open>src\<close>, from the left, becomes \<open>dst\<close>.\<close>

function replace_all :: "string \<Rightarrow> string \<Rightarrow> string \<Rightarrow> string" where
  "replace_all src dst [] = []"
| "replace_all src dst (c # cs) =
     (if src \<noteq> [] \<and> take (length src) (c # cs) = src
      then dst @ replace_all src dst (drop (length src) (c # cs))
      else c # replace_all src dst cs)"
  by pat_completeness auto
termination
  by (relation "measure (\<lambda>(src, dst, s). length s)") auto

fun REPLACE :: "sqlval \<Rightarrow> string \<Rightarrow> string \<Rightarrow> sqlval" where
  "REPLACE (Text s) src dst = Text (replace_all src dst s)"
| "REPLACE _ src dst = Null"

text \<open>
  \<^verbatim>\<open>TRY_CAST(s AS DOUBLE)\<close>. Blanks around the text are skipped, then one plus sign.
  What remains is an optional minus sign followed by \<^verbatim>\<open>inf\<close>, \<^verbatim>\<open>infinity\<close> or
  \<^verbatim>\<open>nan\<close> in any letter case, or by a decimal literal: digits with an optional
  fractional part (at least one digit in all) and an optional exponent. An underscore
  may stand between two digits. Any other text, and a literal beyond the range of a
  double, gives NULL.
\<close>

definition is_space :: "char \<Rightarrow> bool" where
  "is_space c = (c \<in> set [CHR '' '', CHR 0x09, CHR 0x0A, CHR 0x0B, CHR 0x0C, CHR 0x0D])"

definition is_digit :: "char \<Rightarrow> bool" where
  "is_digit c = (c \<in> set ''0123456789'')"

definition digit_val :: "char \<Rightarrow> nat" where
  "digit_val c = of_char c - 48"

definition nat_of_digits :: "string \<Rightarrow> nat" where
  "nat_of_digits ds = foldl (\<lambda>n c. 10 * n + digit_val c) 0 ds"

definition trim :: "string \<Rightarrow> string" where
  "trim s = rev (dropWhile is_space (rev (dropWhile is_space s)))"

text \<open>A run of digits, with single underscores between digits only.\<close>

fun separators_ok :: "string \<Rightarrow> bool" where
  "separators_ok [] = True"
| "separators_ok [c] = is_digit c"
| "separators_ok (c # d # r) =
     (is_digit c \<and> (if d = CHR ''_'' then r \<noteq> [] \<and> separators_ok r else separators_ok (d # r)))"

definition is_digit_or_separator :: "char \<Rightarrow> bool" where
  "is_digit_or_separator c = (is_digit c \<or> c = CHR ''_'')"

definition digits_of :: "string \<Rightarrow> string" where
  "digits_of s = filter is_digit s"

text \<open>The exponent: \<open>e\<close> or \<open>E\<close>, an optional sign, at least one digit, nothing after.\<close>

definition parse_exponent :: "string \<Rightarrow> int option" where
  "parse_exponent s =
     (case s of
        [] \<Rightarrow> Some 0
      | c # r \<Rightarrow>
          if c = CHR ''e'' \<or> c = CHR ''E'' then
            (let neg = (case r of d # _ \<Rightarrow> d = CHR ''-'' | [] \<Rightarrow> False);
                 ds = (case r of d # r' \<Rightarrow> if d = CHR ''-'' \<or> d = CHR ''+'' then r' else r | [] \<Rightarrow> [])
             in if ds \<noteq> [] \<and> list_all is_digit ds
                then Some (if neg then - int (nat_of_digits ds) else int (nat_of_digits ds))
                else None)
          else None)"

definition scale10 :: "rat \<Rightarrow> int \<Rightarrow> rat" where
  "scale10 x e = (if 0 \<le> e then x * 10 ^ nat e else x / 10 ^ nat (- e))"

definition parse_decimal :: "string \<Rightarrow> rat option" where
  "parse_decimal u =
     (let ip = takeWhile is_digit_or_separator u;
          r1 = dropWhile is_digit_or_separator u;
          fp = (case r1 of c # r \<Rightarrow> if c = CHR ''.'' then takeWhile is_digit_or_separator r else []
                | [] \<Rightarrow> []);
          r2 = (case r1 of c # r \<Rightarrow> if c = CHR ''.'' then dropWhile is_digit_or_separator r else r1
                | [] \<Rightarrow> []);
          mant = of_nat (nat_of_digits (digits_of (ip @ fp))) / 10 ^ length (digits_of fp)
      in if ip = [] \<and> fp = [] then None
         else if separators_ok ip \<and> separators_ok fp then
           (case parse_exponent r2 of
              None \<Rightarrow> None
            | Some e \<Rightarrow> Some (scale10 mant e))
         else None)"

definition parse_double :: "string \<Rightarrow> sqlval option" where
  "parse_double s =
     (let t = trim s;
          t1 = (case t of c # r \<Rightarrow> if c = CHR ''+'' then r else t | [] \<Rightarrow> []);
          neg = (case t1 of c # _ \<Rightarrow> c = CHR ''-'' | [] \<Rightarrow> False);
          u = (case t1 of c # r \<Rightarrow> if c = CHR ''-'' then r else t1 | [] \<Rightarrow> [])
      in if lower u = ''inf'' \<or> lower u = ''infinity'' then Some (if neg then NegInf else PosInf)
         else if lower u = ''nan'' then Some NaN
         else (case parse_decimal u of
                 None \<Rightarrow> None
               | Some x \<Rightarrow>
                   if in_double_range x then Some (Dbl (if neg then - x else x)) else None))"

fun TRY_CAST_DOUBLE :: "sqlval \<Rightarrow> sqlval" where
  "TRY_CAST_DOUBLE (Text s) = (case parse_double s of None \<Rightarrow> Null | Some v \<Rightarrow> v)"
| "TRY_CAST_DOUBLE Null = Null"
| "TRY_CAST_DOUBLE v = v"

subsection \<open>The destination store\<close>

datatype sqltype = TEXT | DOUBLE

record column =
  col_name :: string
  col_type :: sqltype
  not_null :: bool

record table =
  tbl_columns :: "column list"
  tbl_rows :: "sqlval list list"

text \<open>The catalog of the database file: table name to table.\<close>

type_synonym database = "string \<rightharpoonup> table"

definition properties_columns :: "column list" where
  "properties_columns =
    [\<lparr>col_name = ''id'', col_type = TEXT, not_null = True\<rparr>,
     \<lparr>col_name = ''scraping_date'', col_type = TEXT, not_null = True\<rparr>,
     \<lparr>col_name = ''property_type'', col_type = TEXT, not_null = True\<rparr>,
     \<lparr>col_name = ''municipality'', col_type = TEXT, not_null = True\<rparr>,
     \<lparr>col_name = ''price'', col_type = DOUBLE, not_null = True\<rparr>,
     \<lparr>col_name = ''living_area'', col_type = DOUBLE, not_null = True\<rparr>,
     \<lparr>col_name = ''price_per_square_meter'', col_type = DOUBLE, not_null = True\<rparr>]"

text \<open>\<^verbatim>\<open>CREATE TABLE IF NOT EXISTS properties (...)\<close>.\<close>

definition CREATE_DUCKDB_TABLE_QUERY :: "database \<Rightarrow> database" where
  "CREATE_DUCKDB_TABLE_QUERY db =
     (case db ''properties'' of
        Some t \<Rightarrow> db
      | None \<Rightarrow> db(''properties'' \<mapsto> \<lparr>tbl_columns = properties_columns, tbl_rows = []\<rparr>))"

text \<open>\<^verbatim>\<open>SELECT COUNT(*) FROM properties\<close>.\<close>

definition count_properties :: "database \<Rightarrow> error + nat" where
  "count_properties db =
     (case db ''properties'' of
        None \<Rightarrow> Inl (CatalogError ''properties'')
      | Some t \<Rightarrow> Inr (length (tbl_rows t)))"

subsection \<open>The INSERT ... SELECT statement\<close>

text \<open>The currency marker, U+20AC, in UTF-8.\<close>

definition euro :: string where
  "euro = [CHR 0xE2, CHR 0x82, CHR 0xAC]"

text \<open>The item of the select list with the alias \<^verbatim>\<open>price\<close>.\<close>

definition price :: "row \<Rightarrow> sqlval" where
  "price r =
     TRY_CAST_DOUBLE (REPLACE (SPLIT_PART (column_ref r ''raw_price'') euro 1) '' '' [])"

text \<open>
  What \<^verbatim>\<open>price\<close> denotes inside \<^verbatim>\<open>ROUND(price / living_area, 2)\<close>: the column of
  this name if the table has one, the alias otherwise.
\<close>

definition price_ref :: "row \<Rightarrow> sqlval" where
  "price_ref r =
     (case lookup_column r ''price'' of None \<Rightarrow> price r | Some c \<Rightarrow> sql_of_cell c)"

text \<open>The item of the select list with the alias \<^verbatim>\<open>price_per_square_meter\<close>.\<close>

definition price_per_square_meter :: "row \<Rightarrow> sqlval" where
  "price_per_square_meter r = ROUND (sql_div (price_ref r) (column_ref r ''living_area'')) 2"

text \<open>
  What \<^verbatim>\<open>price_per_square_meter\<close> denotes inside the WHERE clause: the column of this
  name if the table has one, the alias otherwise.
\<close>

definition price_per_square_meter_ref :: "row \<Rightarrow> sqlval" where
  "price_per_square_meter_ref r =
     (case lookup_column r ''price_per_square_meter'' of
        None \<Rightarrow> price_per_square_meter r
      | Some c \<Rightarrow> sql_of_cell c)"

definition select_list :: "row \<Rightarrow> sqlval list" where
  "select_list r =
     [column_ref r ''id'',
      column_ref r ''scraping_date'',
      column_ref r ''property_type'',
      column_ref r ''municipality'',
      price r,
      column_ref r ''living_area'',
      price_per_square_meter r]"

definition where_clause :: "row \<Rightarrow> bool option" where
  "where_clause r =
     sql_and
       (sql_and
          (sql_in (column_ref r ''property_type'') [''apartment'', ''house''])
          (sql_between (price_per_square_meter_ref r) 500 15000))
       (sql_gt_text (column_ref r ''scraping_date'') ''2020-03-05'')"

text \<open>A row is selected when the WHERE clause is true; false and unknown both drop it.\<close>

definition selected :: "row \<Rightarrow> bool" where
  "selected r = (where_clause r = Some True)"

definition select_query :: "row list \<Rightarrow> sqlval list list" where
  "select_query arrow_table = map select_list (filter selected arrow_table)"

text \<open>
  Before any row is read the statement is bound. The division and the range test
  accept a number or a null; a column \<^verbatim>\<open>price\<close> or \<^verbatim>\<open>price_per_square_meter\<close> of
  the table with a value of another kind fails the statement. So does a target table
  that has not the seven columns of the select list. Conversions between the types of
  the select list and other types of the target's columns are not modelled.
\<close>

fun numeric_or_null :: "cell option \<Rightarrow> bool" where
  "numeric_or_null None = True"
| "numeric_or_null (Some CNull) = True"
| "numeric_or_null (Some (CFloat x)) = True"
| "numeric_or_null (Some _) = False"

definition bind_query :: "column list \<Rightarrow> row list \<Rightarrow> error option" where
  "bind_query cols arrow_table =
     (if \<not> list_all (\<lambda>r. numeric_or_null (lookup_column r ''price'')
                          \<and> numeric_or_null (lookup_column r ''price_per_square_meter''))
             arrow_table
      then Some BinderError
      else if length cols \<noteq> 7 then Some ColumnCountMismatch
      else None)"

text \<open>
  The NOT NULL constraints of the target are verified column by column, in the order
  of the columns, over all the new rows.
\<close>

definition null_in_column :: "nat \<Rightarrow> sqlval list list \<Rightarrow> bool" where
  "null_in_column i rows = list_ex (\<lambda>row. i < length row \<and> row ! i = Null) rows"

definition check_rows :: "column list \<Rightarrow> sqlval list list \<Rightarrow> error option" where
  "check_rows cols rows =
     (case filter (\<lambda>i. not_null (cols ! i) \<and> null_in_column i rows) [0..<length cols] of
        [] \<Rightarrow> None
      | i # _ \<Rightarrow> Some (NotNullViolation (col_name (cols ! i))))"

text \<open>What the statement raises, if anything, on a target with these columns.\<close>

definition statement_error :: "column list \<Rightarrow> row list \<Rightarrow> error option" where
  "statement_error cols arrow_table =
     (case bind_query cols arrow_table of
        Some e \<Rightarrow> Some e
      | None \<Rightarrow> check_rows cols (select_query arrow_table))"

text \<open>The statement is atomic: when it raises, no row of it is appended.\<close>

definition INSERT_DUCKDB_TABLE_QUERY :: "row list \<Rightarrow> database \<Rightarrow> error + database" where
  "INSERT_DUCKDB_TABLE_QUERY arrow_table db =
     (case db ''properties'' of
        None \<Rightarrow> Inl (CatalogError ''properties'')
      | Some t \<Rightarrow>
          (case statement_error (tbl_columns t) arrow_table of
             Some e \<Rightarrow> Inl e
           | None \<Rightarrow>
               Inr (db(''properties'' \<mapsto>
                        t\<lparr>tbl_rows := tbl_rows t @ select_query arrow_table\<rparr>))))"

subsection \<open>The run\<close>

datatype log_line =
    ReadingDataFromFile
  | TotalRowsRead int
  | RowsBeforeInsertion int
  | RowsInserted int

record run_result =
  raised :: "error option"
  store :: database
  logged :: "log_line list"

definition parse_jsonl_and_write_to_duckdb :: "json list \<Rightarrow> database \<Rightarrow> run_result" where
  "parse_jsonl_and_write_to_duckdb f db =
     (case read_json PA_SCHEMA f of
        Inl e \<Rightarrow> \<lparr>raised = Some e, store = db, logged = [ReadingDataFromFile]\<rparr>
      | Inr pa_table \<Rightarrow>
          (let log1 = [ReadingDataFromFile, TotalRowsRead (int (length pa_table))];
               db1 = CREATE_DUCKDB_TABLE_QUERY db
           in case count_properties db1 of
                Inl e \<Rightarrow> \<lparr>raised = Some e, store = db1, logged = log1\<rparr>
              | Inr row_count_before_insert \<Rightarrow>
                  (let log2 = log1 @ [RowsBeforeInsertion (int row_count_before_insert)]
                   in case INSERT_DUCKDB_TABLE_QUERY pa_table db1 of
                        Inl e \<Rightarrow> \<lparr>raised = Some e, store = db1, logged = log2\<rparr>
                      | Inr db2 \<Rightarrow>
                          (case count_properties db2 of
                             Inl e \<Rightarrow> \<lparr>raised = Some e, store = db2, logged = log2\<rparr>
                           | Inr row_count_after_insert \<Rightarrow>
                               \<lparr>raised = None, store = db2,
                                logged = log2 @
                                  [RowsInserted (int row_count_after_insert
                                                 - int row_count_before_insert)]\<rparr>))))"

text \<open>One run after another on the same store, whatever each run's outcome.\<close>

fun runs :: "json list list \<Rightarrow> database \<Rightarrow> database" where
  "runs [] db = db"
| "runs (f # fs) db = runs fs (store (parse_jsonl_and_write_to_duckdb f db))"

text \<open>The rows of the properties table; none when the table does not exist.\<close>

definition properties_rows :: "database \<Rightarrow> sqlval list list" where
  "properties_rows db = (case db ''properties'' of None \<Rightarrow> [] | Some t \<Rightarrow> tbl_rows t)"

subsection \<open>Vocabulary of the properties\<close>

text \<open>
  What the filter asks of a stored row, read off the stored values: the columns are
  id, scraping_date, property_type, municipality, price, living_area and
  price_per_square_meter, in this order.
\<close>

fun satisfies_filter :: "sqlval list \<Rightarrow> bool" where
  "satisfies_filter [i, Text sd, Text pt, mu, p, a, Dbl q] =
     ((pt = ''apartment'' \<or> pt = ''house'') \<and> 500 \<le> q \<and> q \<le> 15000 \<and> ''2020-03-05'' < sd)"
| "satisfies_filter _ = False"

text \<open>The derived column of a stored row is the rounded quotient of its own price and area.\<close>

fun derived_column_ok :: "sqlval list \<Rightarrow> bool" where
  "derived_column_ok [i, sd, pt, mu, Dbl p, Dbl a, Dbl q] = (a \<noteq> 0 \<and> q = round_to 2 (p / a))"
| "derived_column_ok _ = False"

text \<open>The properties table as the run finds it after the CREATE statement.\<close>

definition target :: "database \<Rightarrow> table" where
  "target db =
     (case db ''properties'' of
        Some t \<Rightarrow> t
      | None \<Rightarrow> \<lparr>tbl_columns = properties_columns, tbl_rows = []\<rparr>)"

text \<open>The store has no properties table, or one with the declared columns.\<close>

definition declared_or_absent :: "database \<Rightarrow> bool" where
  "declared_or_absent db = (tbl_columns (target db) = properties_columns)"

text \<open>
  The example listing of the specification: the input line, the row of the Arrow table
  it is decoded to, and the row of the properties table it ends as.
\<close>

definition example_line :: json where
  "example_line =
     JObject [(''id'', JString ''1''),
              (''raw_price'', JString (''530 000'' @ euro @ ''/mo.'')),
              (''living_area'', JNumber 100),
              (''property_type'', JString ''apartment''),
              (''municipality'', JString ''Zug''),
              (''scraping_date'', JString ''2021-01-01'')]"

definition example_cells :: row where
  "example_cells =
     [(''id'', CString ''1''),
      (''raw_price'', CString (''530 000'' @ euro @ ''/mo.'')),
      (''living_area'', CFloat 100),
      (''property_type'', CString ''apartment''),
      (''municipality'', CString ''Zug''),
      (''scraping_date'', CString ''2021-01-01'')]"

definition example_stored :: "sqlval list" where
  "example_stored =
     [Text ''1'', Text ''2021-01-01'', Text ''apartment'', Text ''Zug'',
      Dbl 530000, Dbl 100, Dbl 5300]"

text \<open>The rows that a run adds at the end of the properties table.\<close>

definition appended_rows :: "json list \<Rightarrow> database \<Rightarrow> sqlval list list" where
  "appended_rows f db =
     drop (length (properties_rows db))
       (properties_rows (store (parse_jsonl_and_write_to_duckdb f db)))"

text \<open>The number that a logged line carries, if it carries one.\<close>

fun logged_number :: "log_line \<Rightarrow> int option" where
  "logged_number ReadingDataFromFile = None"
| "logged_number (TotalRowsRead n) = Some n"
| "logged_number (RowsBeforeInsertion n) = Some n"
| "logged_number (RowsInserted n) = Some n"

text \<open>A store whose properties table already holds the example row twice.\<close>

definition two_row_store :: database where
  "two_row_store =
     [''properties'' \<mapsto>
        \<lparr>tbl_columns = properties_columns, tbl_rows = [example_stored, example_stored]\<rparr>]"

text \<open>
  A schema violation, in the words of the specification: a line that is no record, a
  record that lacks a required field (or gives null for it), or a field that is present
  with a value of another type than the declared one.
\<close>

fun has_type :: "arrow_type \<Rightarrow> json \<Rightarrow> bool" where
  "has_type ArrowString (JString s) = True"
| "has_type ArrowFloat64 (JNumber x) = True"
| "has_type _ _ = False"

definition field_violated :: "(string \<times> json) list \<Rightarrow> field \<Rightarrow> bool" where
  "field_violated obj fld =
     (case map_of obj (field_name fld) of
        None \<Rightarrow> \<not> nullable fld
      | Some JNull \<Rightarrow> \<not> nullable fld
      | Some v \<Rightarrow> \<not> has_type (field_type fld) v)"

fun violates_schema :: "json \<Rightarrow> bool" where
  "violates_schema (JObject obj) = list_ex (field_violated obj) PA_SCHEMA"
| "violates_schema _ = True"

text \<open>The example line without its id, and the example line with a string as living area.\<close>

definition line_without_id :: json where
  "line_without_id =
     JObject [(''raw_price'', JString (''530 000'' @ euro @ ''/mo.'')),
              (''living_area'', JNumber 100),
              (''property_type'', JString ''apartment''),
              (''municipality'', JString ''Zug''),
              (''scraping_date'', JString ''2021-01-01'')]"

definition line_with_text_area :: json where
  "line_with_text_area =
     JObject [(''id'', JString ''1''),
              (''raw_price'', JString (''530 000'' @ euro @ ''/mo.'')),
              (''living_area'', JString ''100''),
              (''property_type'', JString ''apartment''),
              (''municipality'', JString ''Zug''),
              (''scraping_date'', JString ''2021-01-01'')]"

text \<open>
  Lines that carry a field outside the schema whose name is an alias of the select
  list, with the rows of the Arrow table they are decoded to.
\<close>

definition line_shadow_derived :: json where
  "line_shadow_derived =
     JObject [(''id'', JString ''1''),
              (''raw_price'', JString (''100'' @ euro)),
              (''living_area'', JNumber 100),
              (''property_type'', JString ''apartment''),
              (''municipality'', JString ''Zug''),
              (''scraping_date'', JString ''2021-01-01''),
              (''price_per_square_meter'', JNumber 700)]"

definition cells_shadow_derived :: row where
  "cells_shadow_derived =
     [(''id'', CString ''1''),
      (''raw_price'', CString (''100'' @ euro)),
      (''living_area'', CFloat 100),
      (''property_type'', CString ''apartment''),
      (''municipality'', CString ''Zug''),
      (''scraping_date'', CString ''2021-01-01''),
      (''price_per_square_meter'', CFloat 700)]"

definition stored_shadow_derived :: "sqlval list" where
  "stored_shadow_derived =
     [Text ''1'', Text ''2021-01-01'', Text ''apartment'', Text ''Zug'', Dbl 100, Dbl 100, Dbl 1]"

definition line_shadow_price :: json where
  "line_shadow_price =
     JObject [(''id'', JString ''1''),
              (''raw_price'', JString (''530 000'' @ euro @ ''/mo.'')),
              (''living_area'', JNumber 100),
              (''property_type'', JString ''apartment''),
              (''municipality'', JString ''Zug''),
              (''scraping_date'', JString ''2021-01-01''),
              (''price'', JNumber 100000)]"

definition cells_shadow_price :: row where
  "cells_shadow_price =
     [(''id'', CString ''1''),
      (''raw_price'', CString (''530 000'' @ euro @ ''/mo.'')),
      (''living_area'', CFloat 100),
      (''property_type'', CString ''apartment''),
      (''municipality'', CString ''Zug''),
      (''scraping_date'', CString ''2021-01-01''),
      (''price'', CFloat 100000)]"

definition stored_shadow_price :: "sqlval list" where
  "stored_shadow_price =
     [Text ''1'', Text ''2021-01-01'', Text ''apartment'', Text ''Zug'',
      Dbl 530000, Dbl 100, Dbl 1000]"

definition line_bad_price_shadow :: json where
  "line_bad_price_shadow =
     JObject [(''id'', JString ''1''),
              (''raw_price'', JString ''not a price''),
              (''living_area'', JNumber 100),
              (''property_type'', JString ''apartment''),
              (''municipality'', JString ''Zug''),
              (''scraping_date'', JString ''2021-01-01''),
              (''price_per_square_meter'', JNumber 700)]"

definition cells_bad_price_shadow :: row where
  "cells_bad_price_shadow =
     [(''id'', CString ''1''),
      (''raw_price'', CString ''not a price''),
      (''living_area'', CFloat 100),
      (''property_type'', CString ''apartment''),
      (''municipality'', CString ''Zug''),
      (''scraping_date'', CString ''2021-01-01''),
      (''price_per_square_meter'', CFloat 700)]"

definition line_null_area_shadow :: json where
  "line_null_area_shadow =
     JObject [(''id'', JString ''1''),
              (''raw_price'', JString (''530 000'' @ euro @ ''/mo.'')),
              (''living_area'', JNull),
              (''property_type'', JString ''apartment''),
              (''municipality'', JString ''Zug''),
              (''scraping_date'', JString ''2021-01-01''),
              (''price_per_square_meter'', JNumber 700)]"

definition cells_null_area_shadow :: row where
  "cells_null_area_shadow =
     [(''id'', CString ''1''),
      (''raw_price'', CString (''530 000'' @ euro @ ''/mo.'')),
      (''living_area'', CNull),
      (''property_type'', CString ''apartment''),
      (''municipality'', CString ''Zug''),
      (''scraping_date'', CString ''2021-01-01''),
      (''price_per_square_meter'', CFloat 700)]"

text \<open>
  The price in the words of the specification: the text before the currency marker,
  without its blanks, cast to a number. \<open>remove_spaces\<close> takes out the space character
  U+0020, as the query does; \<open>remove_whitespace\<close> takes out every blank character.
\<close>

fun text_before :: "string \<Rightarrow> string \<Rightarrow> string" where
  "text_before marker [] = []"
| "text_before marker (c # cs) =
     (if take (length marker) (c # cs) = marker then [] else c # text_before marker cs)"

definition remove_spaces :: "string \<Rightarrow> string" where
  "remove_spaces s = filter (\<lambda>c. c \<noteq> CHR '' '') s"

definition remove_whitespace :: "string \<Rightarrow> string" where
  "remove_whitespace s = filter (\<lambda>c. \<not> is_space c) s"

definition numeric_cast :: "string \<Rightarrow> sqlval" where
  "numeric_cast s = (case parse_double s of None \<Rightarrow> Null | Some v \<Rightarrow> v)"

text \<open>The example row with a tabulator in place of the blank of its raw price.\<close>

definition raw_price_with_tab :: string where
  "raw_price_with_tab = ''530'' @ [CHR 0x09] @ ''000'' @ euro @ ''/mo.''"

definition cells_tab_price :: row where
  "cells_tab_price =
     [(''id'', CString ''1''),
      (''raw_price'', CString raw_price_with_tab),
      (''living_area'', CFloat 100),
      (''property_type'', CString ''apartment''),
      (''municipality'', CString ''Zug''),
      (''scraping_date'', CString ''2021-01-01'')]"

text \<open>The example line with a raw price that spells no number.\<close>

definition line_bad_price :: json where
  "line_bad_price =
     JObject [(''id'', JString ''1''),
              (''raw_price'', JString ''not a price''),
              (''living_area'', JNumber 100),
              (''property_type'', JString ''apartment''),
              (''municipality'', JString ''Zug''),
              (''scraping_date'', JString ''2021-01-01'')]"

definition cells_bad_price :: row where
  "cells_bad_price =
     [(''id'', CString ''1''),
      (''raw_price'', CString ''not a price''),
      (''living_area'', CFloat 100),
      (''property_type'', CString ''apartment''),
      (''municipality'', CString ''Zug''),
      (''scraping_date'', CString ''2021-01-01'')]"

text \<open>A row of a table that has the columns of the schema and no other.\<close>

fun schema_row :: "row \<Rightarrow> bool" where
  "schema_row [(n0, CString i), (n1, p), (n2, a), (n3, pt), (n4, m), (n5, sd)] =
     ([n0, n1, n2, n3, n4, n5] = map field_name PA_SCHEMA)"
| "schema_row _ = False"

text \<open>A row that passes the filter and has no municipality.\<close>

definition selected_without_municipality :: "row \<Rightarrow> bool" where
  "selected_without_municipality r = (selected r \<and> column_ref r ''municipality'' = Null)"

section \<open>Properties\<close>

subsection \<open>The ways a run ends\<close>

lemma create_eq: "CREATE_DUCKDB_TABLE_QUERY db = db(''properties'' \<mapsto> target db)"
  by (auto simp: CREATE_DUCKDB_TABLE_QUERY_def target_def split: option.splits)

lemma run_read_error:
  "read_json PA_SCHEMA f = Inl e \<Longrightarrow>
   parse_jsonl_and_write_to_duckdb f db =
     \<lparr>raised = Some e, store = db, logged = [ReadingDataFromFile]\<rparr>"
  by (simp add: parse_jsonl_and_write_to_duckdb_def)

lemma run_insert_error:
  "read_json PA_SCHEMA f = Inr t \<Longrightarrow>
   statement_error (tbl_columns (target db)) t = Some e \<Longrightarrow>
   parse_jsonl_and_write_to_duckdb f db =
     \<lparr>raised = Some e, store = db(''properties'' \<mapsto> target db),
      logged = [ReadingDataFromFile, TotalRowsRead (int (length t)),
                RowsBeforeInsertion (int (length (tbl_rows (target db))))]\<rparr>"
  by (simp add: parse_jsonl_and_write_to_duckdb_def create_eq count_properties_def
      INSERT_DUCKDB_TABLE_QUERY_def)

lemma run_success:
  "read_json PA_SCHEMA f = Inr t \<Longrightarrow>
   statement_error (tbl_columns (target db)) t = None \<Longrightarrow>
   parse_jsonl_and_write_to_duckdb f db =
     \<lparr>raised = None,
      store = db(''properties'' \<mapsto>
                 (target db)\<lparr>tbl_rows := tbl_rows (target db) @ select_query t\<rparr>),
      logged = [ReadingDataFromFile, TotalRowsRead (int (length t)),
                RowsBeforeInsertion (int (length (tbl_rows (target db)))),
                RowsInserted (int (length (select_query t)))]\<rparr>"
  by (simp add: parse_jsonl_and_write_to_duckdb_def create_eq count_properties_def
      INSERT_DUCKDB_TABLE_QUERY_def)

subsection \<open>Facts for evaluation\<close>

lemma lower_names:
  "lower ''id'' = ''id''"
  "lower ''raw_price'' = ''raw_price''"
  "lower ''living_area'' = ''living_area''"
  "lower ''property_type'' = ''property_type''"
  "lower ''municipality'' = ''municipality''"
  "lower ''scraping_date'' = ''scraping_date''"
  "lower ''price'' = ''price''"
  "lower ''price_per_square_meter'' = ''price_per_square_meter''"
  by (simp_all add: lower_def lower_char_def)

lemma small_in_double_range: "\<bar>x\<bar> \<le> 1000000000000 \<Longrightarrow> in_double_range x"
proof -
  have "(1000000000000 :: rat) < 2 ^ 1024 - 2 ^ 970"
    by simp
  then show "\<bar>x\<bar> \<le> 1000000000000 \<Longrightarrow> in_double_range x"
    by (simp add: in_double_range_def)
qed

lemma doubles_in_range:
  "in_double_range 1"
  "in_double_range 100"
  "in_double_range 700"
  "in_double_range 1000"
  "in_double_range 5300"
  "in_double_range 100000"
  "in_double_range 530000"
  by (rule small_in_double_range, simp)+

subsection \<open>The example listing, evaluated\<close>

lemma example_extra_names: "extra_names PA_SCHEMA [example_line] = []"
  by (simp add: extra_names_def PA_SCHEMA_def example_line_def)

lemma example_read: "read_json PA_SCHEMA [example_line] = Inr [example_cells]"
  unfolding read_json_def example_extra_names
  by (simp add: PA_SCHEMA_def example_line_def example_cells_def doubles_in_range
      kinds_agree_def)

lemma example_no_price_column: "lookup_column example_cells ''price'' = None"
  by (simp add: example_cells_def lower_names)

lemma example_no_derived_column: "lookup_column example_cells ''price_per_square_meter'' = None"
  by (simp add: example_cells_def lower_names)

lemma example_columns:
  "column_ref example_cells ''id'' = Text ''1''"
  "column_ref example_cells ''raw_price'' = Text (''530 000'' @ euro @ ''/mo.'')"
  "column_ref example_cells ''living_area'' = Dbl 100"
  "column_ref example_cells ''property_type'' = Text ''apartment''"
  "column_ref example_cells ''municipality'' = Text ''Zug''"
  "column_ref example_cells ''scraping_date'' = Text ''2021-01-01''"
  by (simp_all add: column_ref_def example_cells_def lower_names)

lemma cast_530000: "TRY_CAST_DOUBLE (Text ''530000'') = Dbl 530000"
  by (simp add: parse_double_def parse_decimal_def trim_def is_space_def is_digit_def
      is_digit_or_separator_def digits_of_def nat_of_digits_def digit_val_def
      parse_exponent_def scale10_def lower_def lower_char_def doubles_in_range)

lemma example_price: "price example_cells = Dbl 530000"
proof -
  have "REPLACE (SPLIT_PART (Text (''530 000'' @ euro @ ''/mo.'')) euro 1) '' '' []
          = Text ''530000''"
    by (simp add: euro_def)
  then show ?thesis
    by (simp only: price_def example_columns cast_530000)
qed

lemma round_5300: "ROUND (sql_div (Dbl 530000) (Dbl 100)) 2 = Dbl 5300"
  by (simp add: finite_or_inf_def doubles_in_range round_to_def round_half_away_def
      floor_eq_iff)

lemma example_price_per_square_meter: "price_per_square_meter example_cells = Dbl 5300"
  by (simp only: price_per_square_meter_def price_ref_def example_no_price_column
      option.case example_price example_columns round_5300)

lemma example_where: "where_clause example_cells = Some True"
  by (simp add: where_clause_def price_per_square_meter_ref_def example_no_derived_column
      example_price_per_square_meter example_columns sql_between_def sql_and_def)

lemma example_select: "select_query [example_cells] = [example_stored]"
proof -
  have "select_list example_cells = example_stored"
    by (simp add: select_list_def example_price example_price_per_square_meter example_columns
        example_stored_def)
  then show ?thesis
    by (simp add: select_query_def selected_def example_where)
qed

lemma example_bind: "bind_query properties_columns [example_cells] = None"
  by (simp add: bind_query_def example_no_price_column example_no_derived_column
      properties_columns_def)

lemma check_example_rows:
  "check_rows properties_columns [example_stored] = None"
  by (simp add: check_rows_def null_in_column_def properties_columns_def example_stored_def
      upt_rec_numeral nth_Cons')

lemma example_statement: "statement_error properties_columns [example_cells] = None"
  by (simp only: statement_error_def example_bind option.case example_select check_example_rows)

subsection \<open>Table creation and the example listing\<close>

text \<open>
  C6. Table creation is idempotent. The statement cannot raise: it returns a store.
  Executing it a second time changes nothing; the store then has the tables it had
  before and the properties table; an existing properties table is left as it is, with
  its rows; and where there was none, the table has the declared columns and no row.
\<close>

theorem create_table_idempotent:
  "CREATE_DUCKDB_TABLE_QUERY (CREATE_DUCKDB_TABLE_QUERY db) = CREATE_DUCKDB_TABLE_QUERY db
   \<and> dom (CREATE_DUCKDB_TABLE_QUERY (CREATE_DUCKDB_TABLE_QUERY db)) = insert ''properties'' (dom db)
   \<and> (db ''properties'' = Some t \<longrightarrow> CREATE_DUCKDB_TABLE_QUERY db = db)
   \<and> (db ''properties'' = None \<longrightarrow>
        CREATE_DUCKDB_TABLE_QUERY (CREATE_DUCKDB_TABLE_QUERY db) ''properties''
          = Some \<lparr>tbl_columns = properties_columns, tbl_rows = []\<rparr>)"
  by (auto simp: CREATE_DUCKDB_TABLE_QUERY_def split: option.splits)

theorem create_table_idempotent_witness:
  "[''properties'' \<mapsto> \<lparr>tbl_columns = properties_columns, tbl_rows = [example_stored]\<rparr>]
      ''properties''
     = Some \<lparr>tbl_columns = properties_columns, tbl_rows = [example_stored]\<rparr>
   \<and> CREATE_DUCKDB_TABLE_QUERY
       [''properties'' \<mapsto> \<lparr>tbl_columns = properties_columns, tbl_rows = [example_stored]\<rparr>]
     = [''properties'' \<mapsto> \<lparr>tbl_columns = properties_columns, tbl_rows = [example_stored]\<rparr>]
   \<and> (Map.empty :: database) ''properties'' = None
   \<and> CREATE_DUCKDB_TABLE_QUERY (CREATE_DUCKDB_TABLE_QUERY Map.empty) ''properties''
     = Some \<lparr>tbl_columns = properties_columns, tbl_rows = []\<rparr>"
  using create_table_idempotent
          [of "[''properties'' \<mapsto> \<lparr>tbl_columns = properties_columns, tbl_rows = [example_stored]\<rparr>]"
              "\<lparr>tbl_columns = properties_columns, tbl_rows = [example_stored]\<rparr>"]
        create_table_idempotent [of Map.empty]
  by (simp add: CREATE_DUCKDB_TABLE_QUERY_def)

text \<open>
  C5. The example line with raw price "530 000(euro)/mo.", living area 100, type
  apartment, municipality Zug and scraping date 2021-01-01 is decoded without error;
  its price is 530000 and its price per square meter 5300; the WHERE clause is true of
  it; and a run on the file holding this one line, on a store without tables, raises
  nothing and leaves exactly the transformed row in the properties table.
\<close>

theorem example_row_is_kept:
  "read_json PA_SCHEMA [example_line] = Inr [example_cells]
   \<and> price example_cells = Dbl 530000
   \<and> price_per_square_meter example_cells = Dbl 5300
   \<and> where_clause example_cells = Some True
   \<and> raised (parse_jsonl_and_write_to_duckdb [example_line] Map.empty) = None
   \<and> properties_rows (store (parse_jsonl_and_write_to_duckdb [example_line] Map.empty))
       = [example_stored]"
proof -
  have "statement_error (tbl_columns (target Map.empty)) [example_cells] = None"
    by (simp add: target_def example_statement)
  from run_success [OF example_read this]
  have "raised (parse_jsonl_and_write_to_duckdb [example_line] Map.empty) = None"
    and "properties_rows (store (parse_jsonl_and_write_to_duckdb [example_line] Map.empty))
       = [example_stored]"
    by (simp_all add: properties_rows_def target_def example_select)
  with example_read example_price example_price_per_square_meter example_where
  show ?thesis
    by blast
qed

subsection \<open>What a run does to the properties table\<close>

lemma rows_target: "tbl_rows (target db) = properties_rows db"
  by (simp add: target_def properties_rows_def split: option.splits)

lemma read_lines_length: "read_lines schema extras f = Inr t \<Longrightarrow> length t = length f"
  by (induction f arbitrary: t) (auto split: sum.splits)

lemma read_json_lines:
  "read_json schema f = Inr t \<Longrightarrow> read_lines schema (extra_names schema f) f = Inr t"
  by (auto simp: read_json_def split: if_splits sum.splits)

lemma read_json_length: "read_json schema f = Inr t \<Longrightarrow> length t = length f"
  using read_json_lines read_lines_length by blast

lemma rows_upd: "properties_rows (db(''properties'' \<mapsto> t)) = tbl_rows t"
  by (simp add: properties_rows_def)

lemma appended_rows_eq:
  "appended_rows f db =
     (case read_json PA_SCHEMA f of
        Inl e \<Rightarrow> []
      | Inr t \<Rightarrow>
          (case statement_error (tbl_columns (target db)) t of
             Some e \<Rightarrow> []
           | None \<Rightarrow> select_query t))"
proof (cases "read_json PA_SCHEMA f")
  case (Inl e)
  then show ?thesis
    by (simp add: appended_rows_def run_read_error)
next
  case (Inr t)
  show ?thesis
  proof (cases "statement_error (tbl_columns (target db)) t")
    case None
    with Inr show ?thesis
      by (simp add: appended_rows_def run_success rows_upd rows_target)
  next
    case (Some e)
    with Inr show ?thesis
      by (simp add: appended_rows_def run_insert_error rows_upd rows_target)
  qed
qed

lemma rows_after_run:
  "properties_rows (store (parse_jsonl_and_write_to_duckdb f db))
     = properties_rows db @ appended_rows f db"
proof (cases "read_json PA_SCHEMA f")
  case (Inl e)
  then show ?thesis
    by (simp add: appended_rows_def run_read_error)
next
  case (Inr t)
  show ?thesis
  proof (cases "statement_error (tbl_columns (target db)) t")
    case None
    with Inr show ?thesis
      by (simp add: appended_rows_def run_success rows_upd rows_target)
  next
    case (Some e)
    with Inr show ?thesis
      by (simp add: appended_rows_def run_insert_error rows_upd rows_target)
  qed
qed

lemma columns_after_run:
  "tbl_columns (target (store (parse_jsonl_and_write_to_duckdb f db))) = tbl_columns (target db)"
proof (cases "read_json PA_SCHEMA f")
  case (Inl e)
  then show ?thesis
    by (simp add: run_read_error)
next
  case (Inr t)
  show ?thesis
  proof (cases "statement_error (tbl_columns (target db)) t")
    case None
    with Inr show ?thesis
      by (simp add: run_success target_def)
  next
    case (Some e)
    with Inr show ?thesis
      by (simp add: run_insert_error target_def)
  qed
qed

lemma appended_rows_selected:
  "row \<in> set (appended_rows f db) \<Longrightarrow> \<exists>r. selected r \<and> row = select_list r"
  by (auto simp: appended_rows_eq select_query_def split: sum.splits option.splits)

lemma appended_rows_again:
  "appended_rows f (store (parse_jsonl_and_write_to_duckdb f db)) = appended_rows f db"
  unfolding appended_rows_eq columns_after_run ..

lemma example_appended: "appended_rows [example_line] Map.empty = [example_stored]"
  unfolding appended_rows_eq example_read
  by (simp add: example_select target_def example_statement)

lemma rows_empty_store: "properties_rows Map.empty = []"
  by (simp add: properties_rows_def)

lemma runs_rows_prefix: "\<exists>new. properties_rows (runs fs db) = properties_rows db @ new"
proof (induction fs arbitrary: db)
  case Nil
  show ?case by simp
next
  case (Cons f fs)
  from Cons [of "store (parse_jsonl_and_write_to_duckdb f db)"]
  show ?case
    by (auto simp: rows_after_run)
qed

lemma example_two_row_target:
  "statement_error (tbl_columns (target two_row_store)) [example_cells] = None"
  by (simp add: target_def two_row_store_def example_statement)

lemma example_two_row_rows: "properties_rows two_row_store = [example_stored, example_stored]"
  by (simp add: properties_rows_def two_row_store_def)

text \<open>
  C7. The load neither deduplicates nor upserts. A run leaves the rows that were in the
  table in place and in order and adds its rows after them, and so does any sequence of
  runs; a second run on the same file adds the same rows once more; so, starting from a
  table without rows, the table has twice as many rows after the second run as the
  first run inserted.
\<close>

theorem second_run_appends_again:
  "properties_rows (store (parse_jsonl_and_write_to_duckdb f db))
     = properties_rows db @ appended_rows f db
   \<and> take (length (properties_rows db)) (properties_rows (runs fs db)) = properties_rows db
   \<and> properties_rows (runs [f, f] db)
     = properties_rows db @ appended_rows f db @ appended_rows f db
   \<and> (properties_rows db = [] \<longrightarrow>
        length (properties_rows (runs [f, f] db)) = 2 * length (appended_rows f db))"
proof -
  obtain new where "properties_rows (runs fs db) = properties_rows db @ new"
    using runs_rows_prefix by blast
  then have "take (length (properties_rows db)) (properties_rows (runs fs db)) = properties_rows db"
    by simp
  moreover have "properties_rows (runs [f, f] db)
     = properties_rows db @ appended_rows f db @ appended_rows f db"
    by (simp add: rows_after_run appended_rows_again)
  ultimately show ?thesis
    by (simp add: rows_after_run)
qed

theorem second_run_appends_again_witness:
  "properties_rows (Map.empty :: database) = []
   \<and> appended_rows [example_line] Map.empty = [example_stored]
   \<and> length (properties_rows (runs [ [example_line], [example_line] ] Map.empty)) = 2"
  using second_run_appends_again [of "[example_line]" Map.empty "[]"]
  by (simp add: rows_empty_store example_appended)

text \<open>
  C8, as the claim states it, fails. A successful run on the file with the example line,
  on a table that holds two rows, leaves three rows in the table, and no line of its log
  carries the number three: the row count after the insertion is computed but not
  logged.
\<close>

theorem row_count_after_insert_not_logged:
  "raised (parse_jsonl_and_write_to_duckdb [example_line] two_row_store) = None
   \<and> length (properties_rows (store (parse_jsonl_and_write_to_duckdb [example_line] two_row_store)))
       = 3
   \<and> Some 3 \<notin> set (map logged_number
                      (logged (parse_jsonl_and_write_to_duckdb [example_line] two_row_store)))"
  by (simp add: run_success [OF example_read example_two_row_target] rows_upd rows_target
      example_two_row_rows example_select)

text \<open>
  C8, amended. A run that raises nothing has decoded the whole file, and its log is: the
  line that announces the read; the number of rows read, which is the number of lines of
  the file; the number of rows in the table before the insertion; the number of rows
  inserted, which is the number of rows of which the WHERE clause is true. The number of
  rows in the table after the insertion is the sum of the last two.
\<close>

theorem successful_run_log:
  assumes "raised (parse_jsonl_and_write_to_duckdb f db) = None"
  shows "\<exists>t. read_json PA_SCHEMA f = Inr t
     \<and> logged (parse_jsonl_and_write_to_duckdb f db)
         = [ReadingDataFromFile,
            TotalRowsRead (int (length f)),
            RowsBeforeInsertion (int (length (properties_rows db))),
            RowsInserted (int (length (filter selected t)))]
     \<and> appended_rows f db = map select_list (filter selected t)
     \<and> length (properties_rows (store (parse_jsonl_and_write_to_duckdb f db)))
         = length (properties_rows db) + length (filter selected t)"
proof (cases "read_json PA_SCHEMA f")
  case (Inl e)
  with assms show ?thesis
    by (simp add: run_read_error)
next
  case (Inr t)
  show ?thesis
  proof (cases "statement_error (tbl_columns (target db)) t")
    case (Some e)
    with Inr assms show ?thesis
      by (simp add: run_insert_error)
  next
    case None
    have "appended_rows f db = select_query t"
      by (simp add: appended_rows_eq Inr None)
    then have "appended_rows f db = map select_list (filter selected t)"
      by (simp add: select_query_def)
    with Inr None show ?thesis
      by (simp add: run_success rows_upd rows_target select_query_def read_json_length)
  qed
qed

theorem successful_run_log_witness:
  "raised (parse_jsonl_and_write_to_duckdb [example_line] two_row_store) = None
   \<and> logged (parse_jsonl_and_write_to_duckdb [example_line] two_row_store)
       = [ReadingDataFromFile, TotalRowsRead 1, RowsBeforeInsertion 2, RowsInserted 1]"
proof -
  have ok: "raised (parse_jsonl_and_write_to_duckdb [example_line] two_row_store) = None"
    by (simp add: run_success [OF example_read example_two_row_target])
  from successful_run_log [OF ok] obtain t where
    t: "read_json PA_SCHEMA [example_line] = Inr t"
    and l: "logged (parse_jsonl_and_write_to_duckdb [example_line] two_row_store)
         = [ReadingDataFromFile,
            TotalRowsRead (int (length [example_line])),
            RowsBeforeInsertion (int (length (properties_rows two_row_store))),
            RowsInserted (int (length (filter selected t)))]"
    by blast
  from t have "t = [example_cells]"
    unfolding example_read by simp
  then have "filter selected t = [example_cells]"
    by (simp add: selected_def example_where)
  with ok l show ?thesis
    by (simp add: example_two_row_rows)
qed

subsection \<open>Schema violations\<close>

lemma convert_field_error: "convert_field fld v = Inl e \<Longrightarrow> e = SchemaViolation"
  by (cases "(fld, v)" rule: convert_field.cases) (auto split: if_splits)

lemma convert_field_violated:
  "field_violated obj fld \<Longrightarrow>
   convert_field fld (map_of obj (field_name fld)) = Inl SchemaViolation"
proof (cases "map_of obj (field_name fld)")
  case None
  then show "field_violated obj fld \<Longrightarrow> ?thesis"
    by (simp add: field_violated_def)
next
  case (Some v)
  then show "field_violated obj fld \<Longrightarrow> ?thesis"
    by (cases v; cases "field_type fld") (simp_all add: field_violated_def)
qed

lemma convert_fields_error: "convert_fields flds obj = Inl e \<Longrightarrow> e = SchemaViolation"
  by (induction flds arbitrary: e) (auto split: sum.splits dest: convert_field_error)

lemma convert_fields_violated:
  "list_ex (field_violated obj) flds \<Longrightarrow> convert_fields flds obj = Inl SchemaViolation"
proof (induction flds)
  case Nil
  then show ?case by simp
next
  case (Cons fld flds)
  show ?case
  proof (cases "convert_field fld (map_of obj (field_name fld))")
    case (Inl e)
    then have "e = SchemaViolation"
      by (rule convert_field_error)
    with Inl show ?thesis
      by simp
  next
    case (Inr c)
    then have "\<not> field_violated obj fld"
      using convert_field_violated [of obj fld] by auto
    with Cons have "convert_fields flds obj = Inl SchemaViolation"
      by simp
    with Inr show ?thesis
      by simp
  qed
qed

lemma infer_cell_error: "infer_cell v = Inl e \<Longrightarrow> e = SchemaViolation"
  by (cases v rule: infer_cell.cases) (auto split: if_splits)

lemma convert_extras_error: "convert_extras ns obj = Inl e \<Longrightarrow> e = SchemaViolation"
  by (induction ns arbitrary: e) (auto split: sum.splits dest: infer_cell_error)

lemma convert_line_error: "convert_line schema extras l = Inl e \<Longrightarrow> e = SchemaViolation"
  by (cases l)
    (auto split: if_splits sum.splits dest: convert_fields_error convert_extras_error)

lemma convert_line_violated:
  "violates_schema l \<Longrightarrow> convert_line PA_SCHEMA extras l = Inl SchemaViolation"
  by (cases l) (simp_all add: convert_fields_violated)

lemma read_lines_error: "read_lines schema extras f = Inl e \<Longrightarrow> e = SchemaViolation"
  by (induction f arbitrary: e) (auto split: sum.splits dest: convert_line_error)

lemma read_lines_violated:
  "list_ex violates_schema f \<Longrightarrow> read_lines PA_SCHEMA extras f = Inl SchemaViolation"
proof (induction f)
  case Nil
  then show ?case by simp
next
  case (Cons l ls)
  show ?case
  proof (cases "convert_line PA_SCHEMA extras l")
    case (Inl e)
    then have "e = SchemaViolation"
      by (rule convert_line_error)
    with Inl show ?thesis
      by simp
  next
    case (Inr r)
    then have "\<not> violates_schema l"
      using convert_line_violated [of l extras] by auto
    with Cons have "read_lines PA_SCHEMA extras ls = Inl SchemaViolation"
      by simp
    with Inr show ?thesis
      by simp
  qed
qed

lemma read_json_violated:
  "list_ex violates_schema f \<Longrightarrow> read_json PA_SCHEMA f = Inl SchemaViolation"
  by (simp add: read_json_def read_lines_violated)

text \<open>
  C4. When a line of the file violates the schema, the run raises the schema violation,
  leaves the store as it found it (no table is created, no row is inserted) and logs no
  count. A record without the id field violates the schema, and so does a record with a
  field of the schema whose value is not null and not of the declared type.
\<close>

theorem schema_violation_aborts_run:
  "(list_ex violates_schema f \<longrightarrow>
      raised (parse_jsonl_and_write_to_duckdb f db) = Some SchemaViolation
      \<and> store (parse_jsonl_and_write_to_duckdb f db) = db
      \<and> logged (parse_jsonl_and_write_to_duckdb f db) = [ReadingDataFromFile])
   \<and> (map_of obj ''id'' = None \<longrightarrow> violates_schema (JObject obj))
   \<and> (fld \<in> set PA_SCHEMA \<and> map_of obj (field_name fld) = Some v \<and> v \<noteq> JNull
        \<and> \<not> has_type (field_type fld) v \<longrightarrow> violates_schema (JObject obj))"
proof (intro conjI impI)
  assume "list_ex violates_schema f"
  then have "read_json PA_SCHEMA f = Inl SchemaViolation"
    by (rule read_json_violated)
  then show "raised (parse_jsonl_and_write_to_duckdb f db) = Some SchemaViolation"
    and "store (parse_jsonl_and_write_to_duckdb f db) = db"
    and "logged (parse_jsonl_and_write_to_duckdb f db) = [ReadingDataFromFile]"
    by (simp_all add: run_read_error)
next
  assume "map_of obj ''id'' = None"
  then show "violates_schema (JObject obj)"
    by (simp add: PA_SCHEMA_def field_violated_def)
next
  assume a: "fld \<in> set PA_SCHEMA \<and> map_of obj (field_name fld) = Some v \<and> v \<noteq> JNull
        \<and> \<not> has_type (field_type fld) v"
  then have "field_violated obj fld"
    by (cases v) (simp_all add: field_violated_def)
  with a show "violates_schema (JObject obj)"
    by (auto simp: list_ex_iff)
qed

theorem schema_violation_aborts_run_witness:
  "list_ex violates_schema [example_line, line_without_id]
   \<and> raised (parse_jsonl_and_write_to_duckdb [example_line, line_without_id] two_row_store)
       = Some SchemaViolation
   \<and> store (parse_jsonl_and_write_to_duckdb [example_line, line_without_id] two_row_store)
       = two_row_store
   \<and> violates_schema line_with_text_area"
proof -
  let ?obj = "[(''raw_price'', JString (''530 000'' @ euro @ ''/mo.'')),
              (''living_area'', JNumber 100),
              (''property_type'', JString ''apartment''),
              (''municipality'', JString ''Zug''),
              (''scraping_date'', JString ''2021-01-01'')]"
  let ?obj' = "[(''id'', JString ''1''),
              (''raw_price'', JString (''530 000'' @ euro @ ''/mo.'')),
              (''living_area'', JString ''100''),
              (''property_type'', JString ''apartment''),
              (''municipality'', JString ''Zug''),
              (''scraping_date'', JString ''2021-01-01'')]"
  let ?fld = "\<lparr>field_name = ''living_area'', field_type = ArrowFloat64, nullable = True\<rparr>"
  have 1: "violates_schema line_without_id"
    using schema_violation_aborts_run [of "[]" Map.empty ?obj]
    by (simp add: line_without_id_def)
  have 2: "violates_schema line_with_text_area"
    using schema_violation_aborts_run [of "[]" Map.empty ?obj' ?fld "JString ''100''"]
    by (simp add: line_with_text_area_def PA_SCHEMA_def)
  from 1 have 3: "list_ex violates_schema [example_line, line_without_id]"
    by simp
  with 2 show ?thesis
    using schema_violation_aborts_run [of "[example_line, line_without_id]" two_row_store]
    by blast
qed

subsection \<open>Input columns that take the place of an alias\<close>

lemma cast_100: "TRY_CAST_DOUBLE (Text ''100'') = Dbl 100"
  by (simp add: parse_double_def parse_decimal_def trim_def is_space_def is_digit_def
      is_digit_or_separator_def digits_of_def nat_of_digits_def digit_val_def
      parse_exponent_def scale10_def lower_def lower_char_def doubles_in_range)

lemma round_1: "ROUND (sql_div (Dbl 100) (Dbl 100)) 2 = Dbl 1"
  by (simp add: finite_or_inf_def doubles_in_range round_to_def round_half_away_def
      floor_eq_iff)

lemma shadow_derived_read:
  "read_json PA_SCHEMA [line_shadow_derived] = Inr [cells_shadow_derived]"
proof -
  have "extra_names PA_SCHEMA [line_shadow_derived] = [''price_per_square_meter'']"
    by (simp add: extra_names_def PA_SCHEMA_def line_shadow_derived_def)
  then show ?thesis
    unfolding read_json_def
    by (simp add: PA_SCHEMA_def line_shadow_derived_def cells_shadow_derived_def
        doubles_in_range kinds_agree_def column_kinds_def)
qed

lemma shadow_derived_columns:
  "column_ref cells_shadow_derived ''id'' = Text ''1''"
  "column_ref cells_shadow_derived ''raw_price'' = Text (''100'' @ euro)"
  "column_ref cells_shadow_derived ''living_area'' = Dbl 100"
  "column_ref cells_shadow_derived ''property_type'' = Text ''apartment''"
  "column_ref cells_shadow_derived ''municipality'' = Text ''Zug''"
  "column_ref cells_shadow_derived ''scraping_date'' = Text ''2021-01-01''"
  "lookup_column cells_shadow_derived ''price'' = None"
  "lookup_column cells_shadow_derived ''price_per_square_meter'' = Some (CFloat 700)"
  by (simp_all add: column_ref_def cells_shadow_derived_def lower_names)

lemma shadow_derived_price: "price cells_shadow_derived = Dbl 100"
proof -
  have "REPLACE (SPLIT_PART (Text (''100'' @ euro)) euro 1) '' '' [] = Text ''100''"
    by (simp add: euro_def)
  then show ?thesis
    by (simp only: price_def shadow_derived_columns cast_100)
qed

lemma shadow_derived_alias: "price_per_square_meter cells_shadow_derived = Dbl 1"
  by (simp only: price_per_square_meter_def price_ref_def shadow_derived_columns option.case
      shadow_derived_price round_1)

lemma shadow_derived_where: "where_clause cells_shadow_derived = Some True"
  by (simp add: where_clause_def price_per_square_meter_ref_def shadow_derived_columns
      sql_between_def sql_and_def)

lemma shadow_derived_select: "select_query [cells_shadow_derived] = [stored_shadow_derived]"
proof -
  have "select_list cells_shadow_derived = stored_shadow_derived"
    by (simp add: select_list_def shadow_derived_price shadow_derived_alias
        shadow_derived_columns stored_shadow_derived_def)
  then show ?thesis
    by (simp add: select_query_def selected_def shadow_derived_where)
qed

lemma shadow_derived_statement:
  "statement_error properties_columns [cells_shadow_derived] = None"
proof -
  have "bind_query properties_columns [cells_shadow_derived] = None"
    by (simp add: bind_query_def shadow_derived_columns properties_columns_def)
  moreover have "check_rows properties_columns [stored_shadow_derived] = None"
    by (simp add: check_rows_def null_in_column_def properties_columns_def
        stored_shadow_derived_def upt_rec_numeral nth_Cons')
  ultimately show ?thesis
    by (simp only: statement_error_def option.case shadow_derived_select)
qed

text \<open>
  C1 fails on the code. The line is the example with raw price "100(euro)" and a further
  field price_per_square_meter = 700. The reader keeps the field as a column, the WHERE
  clause tests this column, and the row is selected; the value stored is the one the
  select list computes, 100 / 100 = 1, which is not in the range from 500 to 15000.
\<close>

theorem filter_bypassed_by_input_column:
  "read_json PA_SCHEMA [line_shadow_derived] = Inr [cells_shadow_derived]
   \<and> price_per_square_meter_ref cells_shadow_derived = Dbl 700
   \<and> price_per_square_meter cells_shadow_derived = Dbl 1
   \<and> where_clause cells_shadow_derived = Some True
   \<and> raised (parse_jsonl_and_write_to_duckdb [line_shadow_derived] Map.empty) = None
   \<and> properties_rows (store (parse_jsonl_and_write_to_duckdb [line_shadow_derived] Map.empty))
       = [stored_shadow_derived]
   \<and> \<not> satisfies_filter stored_shadow_derived"
proof -
  have "statement_error (tbl_columns (target Map.empty)) [cells_shadow_derived] = None"
    by (simp add: target_def shadow_derived_statement)
  from run_success [OF shadow_derived_read this]
  have "raised (parse_jsonl_and_write_to_duckdb [line_shadow_derived] Map.empty) = None"
    and "properties_rows (store (parse_jsonl_and_write_to_duckdb [line_shadow_derived] Map.empty))
       = [stored_shadow_derived]"
    by (simp_all add: properties_rows_def target_def shadow_derived_select)
  moreover have "price_per_square_meter_ref cells_shadow_derived = Dbl 700"
    by (simp add: price_per_square_meter_ref_def shadow_derived_columns)
  moreover have "\<not> satisfies_filter stored_shadow_derived"
    by (simp add: stored_shadow_derived_def)
  ultimately show ?thesis
    using shadow_derived_read shadow_derived_alias shadow_derived_where by blast
qed

lemma round_1000: "ROUND (sql_div (Dbl 100000) (Dbl 100)) 2 = Dbl 1000"
  by (simp add: finite_or_inf_def doubles_in_range round_to_def round_half_away_def
      floor_eq_iff)

lemma shadow_price_read:
  "read_json PA_SCHEMA [line_shadow_price] = Inr [cells_shadow_price]"
proof -
  have "extra_names PA_SCHEMA [line_shadow_price] = [''price'']"
    by (simp add: extra_names_def PA_SCHEMA_def line_shadow_price_def)
  then show ?thesis
    unfolding read_json_def
    by (simp add: PA_SCHEMA_def line_shadow_price_def cells_shadow_price_def
        doubles_in_range kinds_agree_def column_kinds_def)
qed

lemma shadow_price_columns:
  "column_ref cells_shadow_price ''id'' = Text ''1''"
  "column_ref cells_shadow_price ''raw_price'' = Text (''530 000'' @ euro @ ''/mo.'')"
  "column_ref cells_shadow_price ''living_area'' = Dbl 100"
  "column_ref cells_shadow_price ''property_type'' = Text ''apartment''"
  "column_ref cells_shadow_price ''municipality'' = Text ''Zug''"
  "column_ref cells_shadow_price ''scraping_date'' = Text ''2021-01-01''"
  "lookup_column cells_shadow_price ''price'' = Some (CFloat 100000)"
  "lookup_column cells_shadow_price ''price_per_square_meter'' = None"
  by (simp_all add: column_ref_def cells_shadow_price_def lower_names)

lemma shadow_price_price: "price cells_shadow_price = Dbl 530000"
proof -
  have "REPLACE (SPLIT_PART (Text (''530 000'' @ euro @ ''/mo.'')) euro 1) '' '' []
          = Text ''530000''"
    by (simp add: euro_def)
  then show ?thesis
    by (simp only: price_def shadow_price_columns cast_530000)
qed

lemma shadow_price_ref: "price_ref cells_shadow_price = Dbl 100000"
  by (simp add: price_ref_def shadow_price_columns)

lemma shadow_price_alias: "price_per_square_meter cells_shadow_price = Dbl 1000"
  by (simp only: price_per_square_meter_def shadow_price_ref shadow_price_columns round_1000)

lemma shadow_price_where: "where_clause cells_shadow_price = Some True"
  by (simp add: where_clause_def price_per_square_meter_ref_def shadow_price_columns
      shadow_price_alias sql_between_def sql_and_def)

lemma shadow_price_select: "select_query [cells_shadow_price] = [stored_shadow_price]"
proof -
  have "select_list cells_shadow_price = stored_shadow_price"
    by (simp add: select_list_def shadow_price_price shadow_price_alias
        shadow_price_columns stored_shadow_price_def)
  then show ?thesis
    by (simp add: select_query_def selected_def shadow_price_where)
qed

lemma shadow_price_statement:
  "statement_error properties_columns [cells_shadow_price] = None"
proof -
  have "bind_query properties_columns [cells_shadow_price] = None"
    by (simp add: bind_query_def shadow_price_columns properties_columns_def)
  moreover have "check_rows properties_columns [stored_shadow_price] = None"
    by (simp add: check_rows_def null_in_column_def properties_columns_def
        stored_shadow_price_def upt_rec_numeral nth_Cons')
  ultimately show ?thesis
    by (simp only: statement_error_def option.case shadow_price_select)
qed

text \<open>
  C2 fails on the code. The line is the example with a further field price = 100000. The
  reader keeps the field as a column, and the division of the select list takes this
  column, not the price that the select list computes from the raw price. The row is
  stored with price 530000, living area 100 and price per square meter 1000, which is
  not the rounded quotient 5300 of the stored price and living area.
\<close>

theorem derived_column_from_input_column:
  "read_json PA_SCHEMA [line_shadow_price] = Inr [cells_shadow_price]
   \<and> price cells_shadow_price = Dbl 530000
   \<and> price_ref cells_shadow_price = Dbl 100000
   \<and> price_per_square_meter cells_shadow_price = Dbl 1000
   \<and> raised (parse_jsonl_and_write_to_duckdb [line_shadow_price] Map.empty) = None
   \<and> properties_rows (store (parse_jsonl_and_write_to_duckdb [line_shadow_price] Map.empty))
       = [stored_shadow_price]
   \<and> stored_shadow_price
       = [Text ''1'', Text ''2021-01-01'', Text ''apartment'', Text ''Zug'',
          Dbl 530000, Dbl 100, Dbl 1000]
   \<and> round_to 2 (530000 / 100) = 5300
   \<and> \<not> derived_column_ok stored_shadow_price"
proof -
  have "statement_error (tbl_columns (target Map.empty)) [cells_shadow_price] = None"
    by (simp add: target_def shadow_price_statement)
  from run_success [OF shadow_price_read this]
  have "raised (parse_jsonl_and_write_to_duckdb [line_shadow_price] Map.empty) = None"
    and "properties_rows (store (parse_jsonl_and_write_to_duckdb [line_shadow_price] Map.empty))
       = [stored_shadow_price]"
    by (simp_all add: properties_rows_def target_def shadow_price_select)
  moreover have r: "round_to 2 (530000 / 100) = 5300"
    by (simp add: round_to_def round_half_away_def floor_eq_iff)
  moreover have "\<not> derived_column_ok stored_shadow_price"
    using r by (simp add: stored_shadow_price_def)
  moreover have "stored_shadow_price
       = [Text ''1'', Text ''2021-01-01'', Text ''apartment'', Text ''Zug'',
          Dbl 530000, Dbl 100, Dbl 1000]"
    by (simp add: stored_shadow_price_def)
  ultimately show ?thesis
    using shadow_price_read shadow_price_price shadow_price_ref shadow_price_alias by blast
qed

lemma cast_not_a_price: "TRY_CAST_DOUBLE (Text ''notaprice'') = Null"
  by (simp add: parse_double_def parse_decimal_def trim_def is_space_def is_digit_def
      is_digit_or_separator_def lower_def lower_char_def)

lemma bad_price_shadow_read:
  "read_json PA_SCHEMA [line_bad_price_shadow] = Inr [cells_bad_price_shadow]"
proof -
  have "extra_names PA_SCHEMA [line_bad_price_shadow] = [''price_per_square_meter'']"
    by (simp add: extra_names_def PA_SCHEMA_def line_bad_price_shadow_def)
  then show ?thesis
    unfolding read_json_def
    by (simp add: PA_SCHEMA_def line_bad_price_shadow_def cells_bad_price_shadow_def
        doubles_in_range kinds_agree_def column_kinds_def)
qed

lemma bad_price_shadow_columns:
  "column_ref cells_bad_price_shadow ''id'' = Text ''1''"
  "column_ref cells_bad_price_shadow ''raw_price'' = Text ''not a price''"
  "column_ref cells_bad_price_shadow ''living_area'' = Dbl 100"
  "column_ref cells_bad_price_shadow ''property_type'' = Text ''apartment''"
  "column_ref cells_bad_price_shadow ''municipality'' = Text ''Zug''"
  "column_ref cells_bad_price_shadow ''scraping_date'' = Text ''2021-01-01''"
  "lookup_column cells_bad_price_shadow ''price'' = None"
  "lookup_column cells_bad_price_shadow ''price_per_square_meter'' = Some (CFloat 700)"
  by (simp_all add: column_ref_def cells_bad_price_shadow_def lower_names)

lemma bad_price_shadow_price: "price cells_bad_price_shadow = Null"
proof -
  have "REPLACE (SPLIT_PART (Text ''not a price'') euro 1) '' '' [] = Text ''notaprice''"
    by (simp add: euro_def)
  then show ?thesis
    by (simp only: price_def bad_price_shadow_columns cast_not_a_price)
qed

lemma bad_price_shadow_alias: "price_per_square_meter cells_bad_price_shadow = Null"
  by (simp add: price_per_square_meter_def price_ref_def bad_price_shadow_columns
      bad_price_shadow_price)

lemma bad_price_shadow_where: "where_clause cells_bad_price_shadow = Some True"
  by (simp add: where_clause_def price_per_square_meter_ref_def bad_price_shadow_columns
      sql_between_def sql_and_def)

lemma bad_price_shadow_select:
  "select_query [cells_bad_price_shadow] =
     [ [Text ''1'', Text ''2021-01-01'', Text ''apartment'', Text ''Zug'', Null, Dbl 100, Null] ]"
  by (simp add: select_query_def selected_def bad_price_shadow_where select_list_def
      bad_price_shadow_price bad_price_shadow_alias bad_price_shadow_columns)

lemma bad_price_shadow_statement:
  "statement_error properties_columns [cells_bad_price_shadow]
     = Some (NotNullViolation ''price'')"
proof -
  have "bind_query properties_columns [cells_bad_price_shadow] = None"
    by (simp add: bind_query_def bad_price_shadow_columns properties_columns_def)
  moreover have "check_rows properties_columns
      [ [Text ''1'', Text ''2021-01-01'', Text ''apartment'', Text ''Zug'', Null, Dbl 100, Null] ]
        = Some (NotNullViolation ''price'')"
    by (simp add: check_rows_def null_in_column_def properties_columns_def
        upt_rec_numeral nth_Cons')
  ultimately show ?thesis
    by (simp only: statement_error_def option.case bad_price_shadow_select)
qed

text \<open>
  C9 fails on the code. The line has the raw price "not a price", a municipality that is
  not null, and a further field price_per_square_meter = 700. The WHERE clause tests
  the column of this name and selects the row; its price is NULL, and the run aborts on
  the NOT NULL constraint of the column price. A null municipality is therefore not the
  only null that can abort a run after the file is decoded.
\<close>

theorem null_price_aborts_run:
  "read_json PA_SCHEMA [line_bad_price_shadow] = Inr [cells_bad_price_shadow]
   \<and> column_ref cells_bad_price_shadow ''municipality'' = Text ''Zug''
   \<and> price cells_bad_price_shadow = Null
   \<and> where_clause cells_bad_price_shadow = Some True
   \<and> raised (parse_jsonl_and_write_to_duckdb [line_bad_price_shadow] Map.empty)
       = Some (NotNullViolation ''price'')
   \<and> properties_rows (store (parse_jsonl_and_write_to_duckdb [line_bad_price_shadow] Map.empty))
       = []"
proof -
  have "statement_error (tbl_columns (target Map.empty)) [cells_bad_price_shadow]
      = Some (NotNullViolation ''price'')"
    by (simp add: target_def bad_price_shadow_statement)
  from run_insert_error [OF bad_price_shadow_read this]
  have "raised (parse_jsonl_and_write_to_duckdb [line_bad_price_shadow] Map.empty)
       = Some (NotNullViolation ''price'')"
    and "properties_rows
          (store (parse_jsonl_and_write_to_duckdb [line_bad_price_shadow] Map.empty)) = []"
    by (simp_all add: properties_rows_def target_def)
  then show ?thesis
    using bad_price_shadow_read bad_price_shadow_columns(5) bad_price_shadow_price
      bad_price_shadow_where by blast
qed

lemma null_area_shadow_read:
  "read_json PA_SCHEMA [line_null_area_shadow] = Inr [cells_null_area_shadow]"
proof -
  have "extra_names PA_SCHEMA [line_null_area_shadow] = [''price_per_square_meter'']"
    by (simp add: extra_names_def PA_SCHEMA_def line_null_area_shadow_def)
  then show ?thesis
    unfolding read_json_def
    by (simp add: PA_SCHEMA_def line_null_area_shadow_def cells_null_area_shadow_def
        doubles_in_range kinds_agree_def column_kinds_def)
qed

lemma null_area_shadow_columns:
  "column_ref cells_null_area_shadow ''id'' = Text ''1''"
  "column_ref cells_null_area_shadow ''raw_price'' = Text (''530 000'' @ euro @ ''/mo.'')"
  "column_ref cells_null_area_shadow ''living_area'' = Null"
  "column_ref cells_null_area_shadow ''property_type'' = Text ''apartment''"
  "column_ref cells_null_area_shadow ''municipality'' = Text ''Zug''"
  "column_ref cells_null_area_shadow ''scraping_date'' = Text ''2021-01-01''"
  "lookup_column cells_null_area_shadow ''price'' = None"
  "lookup_column cells_null_area_shadow ''price_per_square_meter'' = Some (CFloat 700)"
  by (simp_all add: column_ref_def cells_null_area_shadow_def lower_names)

lemma null_area_shadow_price: "price cells_null_area_shadow = Dbl 530000"
proof -
  have "REPLACE (SPLIT_PART (Text (''530 000'' @ euro @ ''/mo.'')) euro 1) '' '' []
          = Text ''530000''"
    by (simp add: euro_def)
  then show ?thesis
    by (simp only: price_def null_area_shadow_columns cast_530000)
qed

lemma null_area_shadow_alias: "price_per_square_meter cells_null_area_shadow = Null"
  by (simp add: price_per_square_meter_def price_ref_def null_area_shadow_columns
      null_area_shadow_price)

lemma null_area_shadow_where: "where_clause cells_null_area_shadow = Some True"
  by (simp add: where_clause_def price_per_square_meter_ref_def null_area_shadow_columns
      sql_between_def sql_and_def)

lemma null_area_shadow_select:
  "select_query [cells_null_area_shadow] =
     [ [Text ''1'', Text ''2021-01-01'', Text ''apartment'', Text ''Zug'', Dbl 530000, Null, Null] ]"
  by (simp add: select_query_def selected_def null_area_shadow_where select_list_def
      null_area_shadow_price null_area_shadow_alias null_area_shadow_columns)

lemma null_area_shadow_statement:
  "statement_error properties_columns [cells_null_area_shadow]
     = Some (NotNullViolation ''living_area'')"
proof -
  have "bind_query properties_columns [cells_null_area_shadow] = None"
    by (simp add: bind_query_def null_area_shadow_columns properties_columns_def)
  moreover have "check_rows properties_columns
      [ [Text ''1'', Text ''2021-01-01'', Text ''apartment'', Text ''Zug'', Dbl 530000, Null, Null] ]
        = Some (NotNullViolation ''living_area'')"
    by (simp add: check_rows_def null_in_column_def properties_columns_def
        upt_rec_numeral nth_Cons')
  ultimately show ?thesis
    by (simp only: statement_error_def option.case null_area_shadow_select)
qed

text \<open>
  C10 fails on the code. The line has a null living area and a further field
  price_per_square_meter = 700. The WHERE clause tests the column of this name and
  selects the row; its living area and its computed price per square meter are NULL,
  and the run aborts on a NOT NULL constraint instead of dropping the row.
\<close>

theorem null_living_area_aborts_run:
  "read_json PA_SCHEMA [line_null_area_shadow] = Inr [cells_null_area_shadow]
   \<and> column_ref cells_null_area_shadow ''living_area'' = Null
   \<and> where_clause cells_null_area_shadow = Some True
   \<and> raised (parse_jsonl_and_write_to_duckdb [line_null_area_shadow] Map.empty)
       = Some (NotNullViolation ''living_area'')
   \<and> properties_rows (store (parse_jsonl_and_write_to_duckdb [line_null_area_shadow] Map.empty))
       = []"
proof -
  have "statement_error (tbl_columns (target Map.empty)) [cells_null_area_shadow]
      = Some (NotNullViolation ''living_area'')"
    by (simp add: target_def null_area_shadow_statement)
  from run_insert_error [OF null_area_shadow_read this]
  have "raised (parse_jsonl_and_write_to_duckdb [line_null_area_shadow] Map.empty)
       = Some (NotNullViolation ''living_area'')"
    and "properties_rows
          (store (parse_jsonl_and_write_to_duckdb [line_null_area_shadow] Map.empty)) = []"
    by (simp_all add: properties_rows_def target_def)
  then show ?thesis
    using null_area_shadow_read null_area_shadow_columns(3) null_area_shadow_where by blast
qed

subsection \<open>Files without fields outside the schema\<close>

lemma sql_and_True: "sql_and a b = Some True \<longleftrightarrow> a = Some True \<and> b = Some True"
  by (cases a; cases b) (auto simp: sql_and_def)

lemma sql_in_True: "sql_in v lits = Some True \<longleftrightarrow> (\<exists>s. v = Text s \<and> s \<in> set lits)"
  by (cases v) auto

lemma sql_between_True:
  "sql_between v lo hi = Some True \<longleftrightarrow> (\<exists>x. v = Dbl x \<and> lo \<le> x \<and> x \<le> hi)"
  by (cases v) (auto simp: sql_between_def sql_and_True)

lemma sql_gt_text_True: "sql_gt_text v lit = Some True \<longleftrightarrow> (\<exists>s. v = Text s \<and> lit < s)"
  by (cases v) auto

lemma selected_iff:
  "selected r \<longleftrightarrow>
     (\<exists>pt q sd. column_ref r ''property_type'' = Text pt
        \<and> (pt = ''apartment'' \<or> pt = ''house'')
        \<and> price_per_square_meter_ref r = Dbl q \<and> 500 \<le> q \<and> q \<le> 15000
        \<and> column_ref r ''scraping_date'' = Text sd \<and> ''2020-03-05'' < sd)"
  unfolding selected_def where_clause_def sql_and_True sql_in_True sql_between_True
    sql_gt_text_True
  by auto

lemma ROUND_Dbl: "ROUND v d = Dbl q \<Longrightarrow> \<exists>x. v = Dbl x"
  by (cases v) auto

lemma sql_div_Dbl: "sql_div u v = Dbl x \<Longrightarrow> u \<noteq> Null \<and> v \<noteq> Null"
  by (cases u; cases v) auto

lemma alias_Dbl:
  assumes "price_per_square_meter r = Dbl q"
  shows "price_ref r \<noteq> Null \<and> column_ref r ''living_area'' \<noteq> Null"
proof -
  from assms obtain x where "sql_div (price_ref r) (column_ref r ''living_area'') = Dbl x"
    unfolding price_per_square_meter_def using ROUND_Dbl by blast
  then show ?thesis
    by (rule sql_div_Dbl)
qed

lemma schema_row_columns:
  assumes "schema_row r"
  shows "lookup_column r ''price'' = None"
    and "lookup_column r ''price_per_square_meter'' = None"
    and "\<exists>i. column_ref r ''id'' = Text i"
proof -
  from assms obtain i p a pt m sd where
    "r = [(''id'', CString i), (''raw_price'', p), (''living_area'', a),
          (''property_type'', pt), (''municipality'', m), (''scraping_date'', sd)]"
    by (auto elim!: schema_row.elims simp: PA_SCHEMA_def)
  then show "lookup_column r ''price'' = None"
    and "lookup_column r ''price_per_square_meter'' = None"
    and "\<exists>i. column_ref r ''id'' = Text i"
    by (simp_all add: column_ref_def lower_names)
qed

lemma schema_row_refs:
  assumes "schema_row r"
  shows "price_ref r = price r"
    and "price_per_square_meter_ref r = price_per_square_meter r"
  using schema_row_columns [OF assms]
  by (simp_all add: price_ref_def price_per_square_meter_ref_def)

lemma convert_field_id:
  "convert_field \<lparr>field_name = n, field_type = ArrowString, nullable = False\<rparr> v = Inr c
     \<Longrightarrow> \<exists>s. c = CString s"
  by (cases "(\<lparr>field_name = n, field_type = ArrowString, nullable = False\<rparr>, v)"
      rule: convert_field.cases) (auto split: if_splits)

lemma convert_line_schema_row: "convert_line PA_SCHEMA [] l = Inr r \<Longrightarrow> schema_row r"
  by (cases l) (auto simp: PA_SCHEMA_def split: if_splits sum.splits dest: convert_field_id)

lemma read_lines_schema_row:
  "read_lines PA_SCHEMA [] f = Inr t \<Longrightarrow> r \<in> set t \<Longrightarrow> schema_row r"
  by (induction f arbitrary: t) (auto split: sum.splits dest: convert_line_schema_row)

lemma read_json_schema_row:
  assumes "extra_names PA_SCHEMA f = []" and "read_json PA_SCHEMA f = Inr t" and "r \<in> set t"
  shows "schema_row r"
proof -
  from assms(1, 2) have "read_lines PA_SCHEMA [] f = Inr t"
    using read_json_lines [of PA_SCHEMA f t] by simp
  then show ?thesis
    using assms(3) by (rule read_lines_schema_row)
qed

lemma price_Null:
  assumes "lookup_column r ''price'' = None"
    and "lookup_column r ''price_per_square_meter'' = None"
    and "price r = Null"
  shows "price_per_square_meter r = Null"
    and "sql_between (price_per_square_meter_ref r) 500 15000 = None"
    and "\<not> selected r"
proof -
  show 1: "price_per_square_meter r = Null"
    by (simp add: price_per_square_meter_def price_ref_def assms)
  then have 2: "price_per_square_meter_ref r = Null"
    by (simp add: price_per_square_meter_ref_def assms)
  then show "sql_between (price_per_square_meter_ref r) 500 15000 = None"
    by (simp add: sql_between_def sql_and_def)
  from 2 show "\<not> selected r"
    by (simp add: selected_iff)
qed

lemma selected_row_values:
  assumes "schema_row r" and "selected r"
  shows "length (select_list r) = 7"
    and "i < 7 \<Longrightarrow> i \<noteq> 3 \<Longrightarrow> select_list r ! i \<noteq> Null"
    and "select_list r ! 3 = column_ref r ''municipality''"
proof -
  from schema_row_columns(3) [OF assms(1)] obtain k where k: "column_ref r ''id'' = Text k"
    by blast
  from assms(2) obtain pt q sd where
    s: "column_ref r ''property_type'' = Text pt"
       "price_per_square_meter_ref r = Dbl q"
       "column_ref r ''scraping_date'' = Text sd"
    by (auto simp: selected_iff)
  from s(2) have q: "price_per_square_meter r = Dbl q"
    by (simp add: schema_row_refs [OF assms(1)])
  from alias_Dbl [OF q] have n: "price r \<noteq> Null" "column_ref r ''living_area'' \<noteq> Null"
    by (simp_all add: schema_row_refs [OF assms(1)])
  show "length (select_list r) = 7"
    by (simp add: select_list_def)
  show "select_list r ! 3 = column_ref r ''municipality''"
    by (simp add: select_list_def)
  assume "i < 7" and "i \<noteq> 3"
  then have "i = 0 \<or> i = 1 \<or> i = 2 \<or> i = 4 \<or> i = 5 \<or> i = 6"
    by arith
  then show "select_list r ! i \<noteq> Null"
    using k s q n by (auto simp: select_list_def)
qed

lemma check_rows_municipality:
  assumes "\<And>row i. row \<in> set rows \<Longrightarrow> i < 7 \<Longrightarrow> i \<noteq> 3 \<Longrightarrow> row ! i \<noteq> Null"
    and "\<And>row. row \<in> set rows \<Longrightarrow> length row = 7"
  shows "check_rows properties_columns rows =
           (if list_ex (\<lambda>row. row ! 3 = Null) rows
            then Some (NotNullViolation ''municipality'') else None)"
proof -
  have n: "\<not> null_in_column i rows" if "i < 7" "i \<noteq> 3" for i
    using assms(1) that by (auto simp: null_in_column_def list_ex_iff)
  have m: "null_in_column 3 rows = list_ex (\<lambda>row. row ! 3 = Null) rows"
    using assms(2) by (auto simp: null_in_column_def list_ex_iff)
  have "[0..<length properties_columns] = [0, 1, 2, 3, 4, 5, 6]"
    by (simp add: properties_columns_def upt_rec_numeral)
  then show ?thesis
    unfolding check_rows_def
    by (simp add: n m) (simp add: properties_columns_def)
qed

lemma statement_error_schema_rows:
  assumes "\<And>r. r \<in> set t \<Longrightarrow> schema_row r"
  shows "statement_error properties_columns t =
           (if list_ex selected_without_municipality t
            then Some (NotNullViolation ''municipality'') else None)"
proof -
  have "list_all (\<lambda>r. numeric_or_null (lookup_column r ''price'')
                          \<and> numeric_or_null (lookup_column r ''price_per_square_meter'')) t"
    using assms schema_row_columns by (auto simp: list_all_iff)
  then have b: "bind_query properties_columns t = None"
    by (simp add: bind_query_def properties_columns_def)
  have c: "check_rows properties_columns (select_query t) =
           (if list_ex (\<lambda>row. row ! 3 = Null) (select_query t)
            then Some (NotNullViolation ''municipality'') else None)"
    by (rule check_rows_municipality)
      (auto simp: select_query_def dest!: assms dest: selected_row_values)
  have "list_ex (\<lambda>row. row ! 3 = Null) (select_query t)
          = list_ex selected_without_municipality t"
    using assms
    by (auto simp: select_query_def list_ex_iff selected_without_municipality_def
        selected_row_values(3))
  with b c show ?thesis
    by (simp add: statement_error_def)
qed

subsection \<open>The price and the rows it drops\<close>

lemma split_at_first:
  "sep \<noteq> [] \<Longrightarrow>
   split_at sep acc s \<noteq> [] \<and> hd (split_at sep acc s) = rev acc @ text_before sep s"
  by (induction sep acc s rule: split_at.induct) auto

lemma SPLIT_PART_first:
  assumes "sep \<noteq> []"
  shows "SPLIT_PART (Text s) sep 1 = Text (text_before sep s)"
proof -
  from split_at_first [OF assms, of "[]" s]
  have "split_at sep [] s \<noteq> []" and "hd (split_at sep [] s) = text_before sep s"
    by simp_all
  then show ?thesis
    by (cases "split_at sep [] s") (simp_all add: Let_def)
qed

lemma replace_all_char: "replace_all [c] [] s = filter (\<lambda>x. x \<noteq> c) s"
  by (induction s) auto

lemma price_Text:
  assumes "column_ref r ''raw_price'' = Text s"
  shows "price r = numeric_cast (remove_spaces (text_before euro s))"
proof -
  have "euro \<noteq> []"
    by (simp add: euro_def)
  then have "SPLIT_PART (Text s) euro 1 = Text (text_before euro s)"
    by (rule SPLIT_PART_first)
  then show ?thesis
    unfolding price_def assms
    by (simp add: replace_all_char remove_spaces_def numeric_cast_def)
qed

lemma tab_price_column: "column_ref cells_tab_price ''raw_price'' = Text raw_price_with_tab"
  by (simp add: column_ref_def cells_tab_price_def lower_names)

lemma tab_price_code:
  "numeric_cast (remove_spaces (text_before euro raw_price_with_tab)) = Null"
  by (simp add: numeric_cast_def remove_spaces_def raw_price_with_tab_def euro_def
      parse_double_def parse_decimal_def trim_def is_space_def is_digit_def
      is_digit_or_separator_def digits_of_def parse_exponent_def lower_def lower_char_def)

lemma tab_price_spec:
  "numeric_cast (remove_whitespace (text_before euro raw_price_with_tab)) = Dbl 530000"
  by (simp add: numeric_cast_def remove_whitespace_def raw_price_with_tab_def euro_def
      parse_double_def parse_decimal_def trim_def is_space_def is_digit_def
      is_digit_or_separator_def digits_of_def nat_of_digits_def digit_val_def
      parse_exponent_def scale10_def lower_def lower_char_def doubles_in_range)

text \<open>
  C3, as the claim states it, fails where it says that the price is the cast of the
  text before the marker with its whitespace removed. The query removes the space
  character only. In the raw price "530(tab)000(euro)/mo." the text before the marker,
  without whitespace, is 530000; the query keeps the tabulator, the cast fails and the
  price is NULL.
\<close>

theorem price_keeps_tabulator:
  "column_ref cells_tab_price ''raw_price'' = Text raw_price_with_tab
   \<and> numeric_cast (remove_whitespace (text_before euro raw_price_with_tab)) = Dbl 530000
   \<and> price cells_tab_price = Null
   \<and> price cells_tab_price
       \<noteq> numeric_cast (remove_whitespace (text_before euro raw_price_with_tab))"
proof -
  have "price cells_tab_price = Null"
    by (simp only: price_Text [OF tab_price_column] tab_price_code)
  then show ?thesis
    by (simp add: tab_price_column tab_price_spec)
qed

lemma bad_price_spec:
  "numeric_cast (remove_spaces (text_before euro ''not a price'')) = Null"
  by (simp add: numeric_cast_def remove_spaces_def euro_def parse_double_def parse_decimal_def
      trim_def is_space_def is_digit_def is_digit_or_separator_def lower_def lower_char_def)

lemma example_price_spec:
  "numeric_cast (remove_spaces (text_before euro (''530 000'' @ euro @ ''/mo.''))) = Dbl 530000"
  by (simp add: numeric_cast_def remove_spaces_def euro_def parse_double_def parse_decimal_def
      trim_def is_space_def is_digit_def is_digit_or_separator_def digits_of_def
      nat_of_digits_def digit_val_def parse_exponent_def scale10_def lower_def lower_char_def
      doubles_in_range)

text \<open>
  C3, amended. The price of a row is the numeric cast of the text before the currency
  marker of its raw price, with the space characters (U+0020) removed. In a table
  without a column named price or price_per_square_meter, a row whose price is NULL, as
  it is when the cast fails, has a NULL price per square meter, the range test is
  unknown and the row is not selected. On a file without fields outside the schema, and
  with a properties table of the declared columns (or none yet), such rows are therefore
  among neither the rows that are appended nor the rows that abort the run: the run
  raises only when a selected row has a null municipality, and otherwise appends the
  selected rows. Of the two raw prices of the specification, "not a price" gives NULL
  and "530 000(euro)/mo." gives 530000.
\<close>

theorem unparseable_price_drops_row:
  "(column_ref r ''raw_price'' = Text s \<longrightarrow>
      price r = numeric_cast (remove_spaces (text_before euro s)))
   \<and> (lookup_column r ''price'' = None \<and> lookup_column r ''price_per_square_meter'' = None
        \<and> price r = Null \<longrightarrow>
        price_per_square_meter r = Null
        \<and> sql_between (price_per_square_meter_ref r) 500 15000 = None
        \<and> \<not> selected r)
   \<and> (extra_names PA_SCHEMA f = [] \<and> read_json PA_SCHEMA f = Inr t \<and> declared_or_absent db
        \<longrightarrow>
        (\<forall>r' \<in> set t. price r' = Null \<longrightarrow> \<not> selected r')
        \<and> raised (parse_jsonl_and_write_to_duckdb f db) =
            (if list_ex selected_without_municipality t
             then Some (NotNullViolation ''municipality'') else None)
        \<and> appended_rows f db =
            (if list_ex selected_without_municipality t then []
             else map select_list (filter selected t)))
   \<and> numeric_cast (remove_spaces (text_before euro ''not a price'')) = Null
   \<and> numeric_cast (remove_spaces (text_before euro (''530 000'' @ euro @ ''/mo.'')))
       = Dbl 530000"
proof (intro conjI impI)
  assume "column_ref r ''raw_price'' = Text s"
  then show "price r = numeric_cast (remove_spaces (text_before euro s))"
    by (rule price_Text)
next
  assume a: "lookup_column r ''price'' = None \<and> lookup_column r ''price_per_square_meter'' = None
        \<and> price r = Null"
  then show "price_per_square_meter r = Null"
    and "sql_between (price_per_square_meter_ref r) 500 15000 = None"
    and "\<not> selected r"
    using price_Null [of r] by blast+
next
  assume a: "extra_names PA_SCHEMA f = [] \<and> read_json PA_SCHEMA f = Inr t
      \<and> declared_or_absent db"
  then have rows: "\<And>r'. r' \<in> set t \<Longrightarrow> schema_row r'"
    using read_json_schema_row by blast
  show "\<forall>r' \<in> set t. price r' = Null \<longrightarrow> \<not> selected r'"
    using rows schema_row_columns price_Null(3) by blast
  from a have e: "statement_error (tbl_columns (target db)) t =
           (if list_ex selected_without_municipality t
            then Some (NotNullViolation ''municipality'') else None)"
    using statement_error_schema_rows [OF rows] by (simp add: declared_or_absent_def)
  from a have t: "read_json PA_SCHEMA f = Inr t"
    by blast
  show "raised (parse_jsonl_and_write_to_duckdb f db) =
            (if list_ex selected_without_municipality t
             then Some (NotNullViolation ''municipality'') else None)"
  proof (cases "list_ex selected_without_municipality t")
    case True
    with e run_insert_error [OF t] show ?thesis
      by simp
  next
    case False
    with e run_success [OF t] show ?thesis
      by simp
  qed
  show "appended_rows f db =
            (if list_ex selected_without_municipality t then []
             else map select_list (filter selected t))"
    by (simp add: appended_rows_eq t e select_query_def)
next
  show "numeric_cast (remove_spaces (text_before euro ''not a price'')) = Null"
    by (rule bad_price_spec)
next
  show "numeric_cast (remove_spaces (text_before euro (''530 000'' @ euro @ ''/mo.'')))
       = Dbl 530000"
    by (rule example_price_spec)
qed

lemma bad_price_read: "read_json PA_SCHEMA [line_bad_price] = Inr [cells_bad_price]"
proof -
  have "extra_names PA_SCHEMA [line_bad_price] = []"
    by (simp add: extra_names_def PA_SCHEMA_def line_bad_price_def)
  then show ?thesis
    unfolding read_json_def
    by (simp add: PA_SCHEMA_def line_bad_price_def cells_bad_price_def doubles_in_range
        kinds_agree_def)
qed

lemma bad_price_columns:
  "column_ref cells_bad_price ''raw_price'' = Text ''not a price''"
  "lookup_column cells_bad_price ''price'' = None"
  "lookup_column cells_bad_price ''price_per_square_meter'' = None"
  by (simp_all add: column_ref_def cells_bad_price_def lower_names)

theorem unparseable_price_drops_row_witness:
  "column_ref cells_bad_price ''raw_price'' = Text ''not a price''
   \<and> lookup_column cells_bad_price ''price'' = None
   \<and> lookup_column cells_bad_price ''price_per_square_meter'' = None
   \<and> extra_names PA_SCHEMA [line_bad_price] = []
   \<and> read_json PA_SCHEMA [line_bad_price] = Inr [cells_bad_price]
   \<and> declared_or_absent two_row_store
   \<and> price cells_bad_price = Null
   \<and> \<not> selected cells_bad_price
   \<and> raised (parse_jsonl_and_write_to_duckdb [line_bad_price] two_row_store) = None
   \<and> appended_rows [line_bad_price] two_row_store = []"
proof -
  note th = unparseable_price_drops_row
    [of cells_bad_price "''not a price''" "[line_bad_price]" "[cells_bad_price]" two_row_store]
  have x: "extra_names PA_SCHEMA [line_bad_price] = []"
    by (simp add: extra_names_def PA_SCHEMA_def line_bad_price_def)
  have d: "declared_or_absent two_row_store"
    by (simp add: declared_or_absent_def target_def two_row_store_def)
  from th bad_price_columns(1)
  have "price cells_bad_price = numeric_cast (remove_spaces (text_before euro ''not a price''))"
    by blast
  then have p: "price cells_bad_price = Null"
    by (simp only: bad_price_spec)
  with th bad_price_columns have s: "\<not> selected cells_bad_price"
    by blast
  then have n: "\<not> list_ex selected_without_municipality [cells_bad_price]"
    by (simp add: selected_without_municipality_def)
  from th x bad_price_read d
  have "raised (parse_jsonl_and_write_to_duckdb [line_bad_price] two_row_store) =
            (if list_ex selected_without_municipality [cells_bad_price]
             then Some (NotNullViolation ''municipality'') else None)"
    and "appended_rows [line_bad_price] two_row_store =
            (if list_ex selected_without_municipality [cells_bad_price] then []
             else map select_list (filter selected [cells_bad_price]))"
    by blast+
  with n s have "raised (parse_jsonl_and_write_to_duckdb [line_bad_price] two_row_store) = None"
    and "appended_rows [line_bad_price] two_row_store = []"
    by simp_all
  with bad_price_columns x bad_price_read d p s show ?thesis
    by blast
qed

end
